theory Spec2Isabelle
  imports Complex_Main
begin

section \<open>The Kraken buying bot: a shallow embedding of \<open>main.py\<close>\<close>

text \<open>
  Conventions of the embedding.
  \<^item> A Python \<open>str\<close> is the list of its Unicode code points (\<open>pystr\<close>); the icons of
    the sheet are single code points beyond ASCII, so a byte string would not do.
  \<^item> A Python \<open>float\<close> is a \<open>pyfloat\<close>: a real number, an infinity or NaN. Every result
    of the arithmetic and every \<open>float\<close> literal of the source is rounded to the nearest
    number of the binary64 format (\<open>b64\<close>), and comparisons with NaN are false, as in
    Python. The two zeros of the format are one value here: the program neither divides
    by zero nor prints through the model, so the sign of a zero is never observed.
  \<^item> What the program gets from its surroundings is a field of the record \<open>env\<close>: the two
    configuration values read from the process environment, the builtins \<open>float\<close> and
    \<open>str.upper\<close>, and the exchange.
  \<^item> Every \<open>print\<close> of the row loop is an \<open>event\<close> appended to the field \<open>printed\<close> of
    the state.
\<close>

subsection \<open>Strings\<close>

type_synonym pystr = "nat list"

text \<open>\<open>str.isspace\<close> on one code point: the characters \<open>str.strip()\<close> removes.\<close>

definition isspace :: "nat \<Rightarrow> bool" where
  "isspace c \<longleftrightarrow>
     (9 \<le> c \<and> c \<le> 13) \<or> (28 \<le> c \<and> c \<le> 32) \<or> c = 133 \<or> c = 160 \<or> c = 5760 \<or>
     (8192 \<le> c \<and> c \<le> 8202) \<or> c = 8232 \<or> c = 8233 \<or> c = 8239 \<or> c = 8287 \<or> c = 12288"

definition strip :: "pystr \<Rightarrow> pystr" where
  "strip s = rev (dropWhile isspace (rev (dropWhile isspace s)))"

subsection \<open>Floats\<close>

datatype pyfloat = Fin real | PInf | NInf | NaN

text \<open>
  Rounding to binary64, to the nearest and to the even mantissa on a tie. \<open>expo x\<close> is
  the integer part of the binary logarithm of \<open>\<bar>x\<bar>\<close>; the mantissa has 53 bits, the
  least exponent of the grid is -1074 (subnormal numbers), and a number that rounds to
  \<open>2 ^ 1024\<close> or more becomes an infinity.
\<close>

fun floorlog2 :: "nat \<Rightarrow> nat" where
  "floorlog2 n = (if n < 2 then 0 else Suc (floorlog2 (n div 2)))"

declare floorlog2.simps [simp del]

definition pow2 :: "int \<Rightarrow> real" where
  "pow2 e = (if 0 \<le> e then 2 ^ nat e else 1 / 2 ^ nat (- e))"

definition expo :: "real \<Rightarrow> int" where
  "expo x = (if 1 \<le> \<bar>x\<bar> then int (floorlog2 (nat \<lfloor>\<bar>x\<bar>\<rfloor>))
             else - int (floorlog2 (nat \<lceil>1 / \<bar>x\<bar>\<rceil> - 1)) - 1)"

definition rne :: "real \<Rightarrow> int" where
  "rne x = (let f = \<lfloor>x\<rfloor>; d = x - of_int f
            in if d < 1 / 2 then f else if 1 / 2 < d then f + 1
               else if even f then f else f + 1)"

definition b64_exp :: "real \<Rightarrow> int" where
  "b64_exp x = max (expo x - 52) (- 1074)"

definition b64_man :: "real \<Rightarrow> int" where
  "b64_man x = rne (\<bar>x\<bar> / pow2 (b64_exp x))"

definition b64 :: "real \<Rightarrow> pyfloat" where
  "b64 x = (if x = 0 then Fin 0
            else if 971 < b64_exp x \<or> (b64_exp x = 971 \<and> 2 ^ 53 \<le> b64_man x)
                 then (if 0 < x then PInf else NInf)
                 else Fin (sgn x * (of_int (b64_man x) * pow2 (b64_exp x))))"

text \<open>The comparisons \<open><\<close> and \<open><=\<close> of Python; \<open>a > b\<close> is \<open>flt b a\<close>.\<close>

fun flt :: "pyfloat \<Rightarrow> pyfloat \<Rightarrow> bool" where
  "flt (Fin x) (Fin y) = (x < y)"
| "flt (Fin x) PInf = True"
| "flt NInf (Fin y) = True"
| "flt NInf PInf = True"
| "flt a b = False"

fun fle :: "pyfloat \<Rightarrow> pyfloat \<Rightarrow> bool" where
  "fle (Fin x) (Fin y) = (x \<le> y)"
| "fle (Fin x) PInf = True"
| "fle NInf (Fin y) = True"
| "fle NInf PInf = True"
| "fle PInf PInf = True"
| "fle NInf NInf = True"
| "fle a b = False"

fun fabs :: "pyfloat \<Rightarrow> pyfloat" where
  "fabs (Fin x) = Fin \<bar>x\<bar>"
| "fabs PInf = PInf"
| "fabs NInf = PInf"
| "fabs NaN = NaN"

fun fneg :: "pyfloat \<Rightarrow> pyfloat" where
  "fneg (Fin x) = Fin (- x)"
| "fneg PInf = NInf"
| "fneg NInf = PInf"
| "fneg NaN = NaN"

text \<open>An infinity times or over a number: its sign follows the sign of the number.\<close>

definition signed_inf :: "real \<Rightarrow> pyfloat \<Rightarrow> pyfloat" where
  "signed_inf x i = (if 0 < x then i else fneg i)"

fun fmul :: "pyfloat \<Rightarrow> pyfloat \<Rightarrow> pyfloat" where
  "fmul (Fin x) (Fin y) = b64 (x * y)"
| "fmul NaN b = NaN"
| "fmul a NaN = NaN"
| "fmul (Fin x) i = (if x = 0 then NaN else signed_inf x i)"
| "fmul i (Fin y) = (if y = 0 then NaN else signed_inf y i)"
| "fmul PInf i = i"
| "fmul NInf i = fneg i"

text \<open>
  Division. Python raises \<open>ZeroDivisionError\<close> on a divisor that is zero; the two
  divisions of the program come after the test \<open>price <= 0\<close>, so their divisor is never
  zero, and \<open>fdiv\<close> gives NaN there.
\<close>

fun fdiv :: "pyfloat \<Rightarrow> pyfloat \<Rightarrow> pyfloat" where
  "fdiv (Fin x) (Fin y) = (if y = 0 then NaN else b64 (x / y))"
| "fdiv NaN b = NaN"
| "fdiv a NaN = NaN"
| "fdiv (Fin x) i = Fin 0"
| "fdiv i (Fin y) = (if y = 0 then NaN else signed_inf y i)"
| "fdiv a b = NaN"

fun fsub :: "pyfloat \<Rightarrow> pyfloat \<Rightarrow> pyfloat" where
  "fsub (Fin x) (Fin y) = b64 (x - y)"
| "fsub NaN b = NaN"
| "fsub a NaN = NaN"
| "fsub (Fin x) i = fneg i"
| "fsub i (Fin y) = i"
| "fsub PInf NInf = PInf"
| "fsub NInf PInf = NInf"
| "fsub a b = NaN"

text \<open>The builtin \<open>min(a, b)\<close>: the second argument when it is less than the first.\<close>

definition py_min :: "pyfloat \<Rightarrow> pyfloat \<Rightarrow> pyfloat" where
  "py_min a b = (if flt b a then b else a)"

text \<open>A number of the format that is not negative: what a balance is.\<close>

definition is_balance :: "pyfloat \<Rightarrow> bool" where
  "is_balance a = (case a of Fin r \<Rightarrow> 0 \<le> r \<and> b64 r = Fin r | _ \<Rightarrow> False)"

subsection \<open>Surroundings\<close>

text \<open>
  The reply of \<open>exchange.create_market_buy_order\<close>: an order, of which the program
  reads \<open>order.get("id")\<close> only; an exception of class \<open>ccxt.BaseError\<close>, which the loop
  catches; or any other exception, which it does not catch.
\<close>

datatype exchange_reply =
  Order_ok "pystr option"
| Base_error pystr
| Other_exception pystr

text \<open>
  \<open>py_float s\<close> is the builtin \<open>float(s)\<close> on a string, \<open>None\<close> when it raises
  \<open>ValueError\<close> (the only exception it raises on a string); it may return an infinity
  or NaN, as \<open>float\<close> does on \<open>inf\<close> and \<open>nan\<close>. \<open>MIN_ORDER_NOTIONAL\<close> is itself the
  \<open>float\<close> of a string of the environment. The exchange is an oracle: its reply may
  depend on the row at which it is called as well as on the request.
\<close>

record env =
  BASE_CURRENCY :: pystr
  MIN_ORDER_NOTIONAL :: pyfloat
  py_float :: "pystr \<Rightarrow> pyfloat option"
  py_upper :: "pystr \<Rightarrow> pystr"
  create_market_buy_order :: "nat \<Rightarrow> pystr \<Rightarrow> pyfloat \<Rightarrow> exchange_reply"

subsection \<open>Helpers\<close>

definition parse_float :: "env \<Rightarrow> pystr option \<Rightarrow> pyfloat option" where
  "parse_float E value =
     (case value of
        None \<Rightarrow> None
      | Some v \<Rightarrow>
          (let v = strip v in
           if v = [] then None
           else (case py_float E v of Some x \<Rightarrow> Some x | None \<Rightarrow> None)))"

text \<open>
  The bounds 0, 25, 26, 50, 51, 75 and 76 are integers of the source, compared exactly;
  99.9 and the four fractions are \<open>float\<close> literals.
\<close>

definition determine_tier_fraction :: "pyfloat \<Rightarrow> pyfloat option" where
  "determine_tier_fraction pct_down =
     (let d = fabs pct_down in
      if fle (Fin 0) d \<and> fle d (Fin 25) then Some (b64 0.05)
      else if fle (Fin 26) d \<and> fle d (Fin 50) then Some (b64 0.10)
      else if fle (Fin 51) d \<and> fle d (Fin 75) then Some (b64 0.15)
      else if fle (Fin 76) d \<and> fle d (b64 99.9) then Some (b64 0.20)
      else None)"

text \<open>The five icons are U+1F48E, U+1F4A5, U+1F680, U+2728 and U+1F4CA.\<close>

definition ICON_MULTIPLIERS :: "pystr \<rightharpoonup> pyfloat" where
  "ICON_MULTIPLIERS =
     map_of [([128142], b64 1.0), ([128165], b64 0.9), ([128640], b64 0.8),
             ([10024], b64 0.7), ([128202], b64 0.6)]"

definition sentiment_multiplier :: "env \<Rightarrow> pystr option \<Rightarrow> pyfloat option" where
  "sentiment_multiplier E sent_str =
     (case sent_str of
        None \<Rightarrow> None
      | Some s \<Rightarrow>
          (let s = strip s in
           if s = [] then None
           else (case parse_float E (Some s) of
                   Some val \<Rightarrow> if flt (Fin 0) val then Some val else None
                 | None \<Rightarrow> None)))"

subsection \<open>State of the run\<close>

text \<open>An entry of \<open>orders_placed\<close>; the fields are the keys of the dictionary.\<close>

record order =
  ord_row :: nat
  ord_symbol :: pystr
  ord_market_symbol :: pystr
  notional :: pyfloat
  amount :: pyfloat
  order_id :: "pystr option"

text \<open>
  One constructor for each \<open>print\<close> of the loop, in the order of the source. An event
  carries the row number and the symbol of its line and, of the other values the line
  shows, those that tell the outcome: the reason of a skip, the notional, the market
  symbol, the order identifier, the funds left, the error.
\<close>

datatype event =
  Not_enough_columns nat
| Missing_required nat pystr
| Icon_not_allowed nat pystr pystr
| Invalid_numeric nat pystr
| Non_positive_price nat pystr
| Not_in_bracket nat pystr pyfloat
| Sentiment_skip nat pystr
| No_remaining_funds
| Below_minimum nat pystr pyfloat pyfloat
| Sizing nat pystr pyfloat pystr
| Order_placed nat pystr "pystr option" pyfloat pyfloat
| Order_failed nat pystr pystr

record state =
  remaining_funds :: pyfloat
  orders_placed :: "order list"
  printed :: "event list"

definition emit :: "event \<Rightarrow> state \<Rightarrow> state" where
  "emit ev st = st\<lparr>printed := printed st @ [ev]\<rparr>"

subsection \<open>The loop body\<close>

definition COL_SYMBOL :: nat where "COL_SYMBOL = 0"
definition COL_PRICE :: nat where "COL_PRICE = 1"
definition COL_PCT_DOWN :: nat where "COL_PCT_DOWN = 2"
definition COL_LONG_MA :: nat where "COL_LONG_MA = 8"
definition COL_ICON :: nat where "COL_ICON = 14"
definition COL_SENTIMENT :: nat where "COL_SENTIMENT = 15"

text \<open>
  The local variables of one iteration once the row has passed every check that does not
  look at the funds (lines 190 to 238 of \<open>main.py\<close>).
\<close>

record candidate =
  c_symbol :: pystr
  c_price :: pyfloat
  c_pct_down :: pyfloat
  c_tier_fraction :: pyfloat
  c_icon :: pystr
  c_icon_mult :: pyfloat
  c_ma_ratio :: pyfloat
  c_sent_mult :: pyfloat

definition sentiment_cell :: "pystr list \<Rightarrow> pystr" where
  "sentiment_cell row = (if length row > COL_SENTIMENT then row ! COL_SENTIMENT else [])"

text \<open>
  Lines 190 to 238: the checks of a row, none of which reads or writes the funds. The
  result is the line printed for a skipped row, or the values computed for a row that
  goes on. The test \<open>icon not in ICON_MULTIPLIERS\<close> and the later lookup
  \<open>ICON_MULTIPLIERS[icon]\<close> are one \<open>case\<close>.
\<close>

definition evaluate_row :: "env \<Rightarrow> nat \<Rightarrow> pystr list \<Rightarrow> event + candidate" where
  "evaluate_row E idx row =
     (if length row \<le> max COL_SENTIMENT (max COL_ICON (max COL_LONG_MA
                         (max COL_PCT_DOWN (max COL_PRICE COL_SYMBOL))))
      then Inl (Not_enough_columns idx)
      else
        let symbol = py_upper E (strip (row ! COL_SYMBOL));
            price_str = row ! COL_PRICE;
            pct_down_str = row ! COL_PCT_DOWN;
            long_ma_str = row ! COL_LONG_MA;
            icon = strip (row ! COL_ICON);
            sentiment_str = sentiment_cell row
        in
        if symbol = [] \<or> price_str = [] \<or> pct_down_str = [] \<or> long_ma_str = [] \<or> icon = []
        then Inl (Missing_required idx symbol)
        else
          (case ICON_MULTIPLIERS icon of
             None \<Rightarrow> Inl (Icon_not_allowed idx symbol icon)
           | Some icon_mult \<Rightarrow>
               (case parse_float E (Some price_str) of
                  None \<Rightarrow> Inl (Invalid_numeric idx symbol)
                | Some price \<Rightarrow>
               (case parse_float E (Some pct_down_str) of
                  None \<Rightarrow> Inl (Invalid_numeric idx symbol)
                | Some pct_down \<Rightarrow>
               (case parse_float E (Some long_ma_str) of
                  None \<Rightarrow> Inl (Invalid_numeric idx symbol)
                | Some long_ma \<Rightarrow>
                    if fle price (Fin 0) then Inl (Non_positive_price idx symbol)
                    else
                      (case determine_tier_fraction pct_down of
                         None \<Rightarrow> Inl (Not_in_bracket idx symbol pct_down)
                       | Some tier_fraction \<Rightarrow>
                           let ma_ratio = fdiv long_ma price in
                           (case sentiment_multiplier E (Some sentiment_str) of
                              None \<Rightarrow> Inl (Sentiment_skip idx symbol)
                            | Some sent_mult \<Rightarrow>
                                Inr \<lparr>c_symbol = symbol, c_price = price,
                                     c_pct_down = pct_down, c_tier_fraction = tier_fraction,
                                     c_icon = icon, c_icon_mult = icon_mult,
                                     c_ma_ratio = ma_ratio, c_sent_mult = sent_mult\<rparr>)))))))"

text \<open>Lines 246 to 249: the product of the funds, the tier fraction and the multipliers.\<close>

definition raw_notional :: "pyfloat \<Rightarrow> candidate \<Rightarrow> pyfloat" where
  "raw_notional funds c =
     (let base_notional = fmul funds (c_tier_fraction c)
      in fmul (fmul (fmul base_notional (c_icon_mult c)) (c_ma_ratio c)) (c_sent_mult c))"

text \<open>Line 252: the cap, \<open>min(order_notional, remaining_funds)\<close>.\<close>

definition order_notional :: "pyfloat \<Rightarrow> candidate \<Rightarrow> pyfloat" where
  "order_notional funds c = py_min (raw_notional funds c) funds"

datatype control = Continue | Break | Raise pystr

text \<open>
  Lines 241 to 296: the funds check, the sizing and the order. Code point 47 is the
  slash of the market symbol.
\<close>

definition place_order :: "env \<Rightarrow> nat \<Rightarrow> candidate \<Rightarrow> state \<Rightarrow> control \<times> state" where
  "place_order E idx c st =
     (if fle (remaining_funds st) (Fin 0) then (Break, emit No_remaining_funds st)
      else
        let order_notional = order_notional (remaining_funds st) c in
        if flt order_notional (MIN_ORDER_NOTIONAL E)
        then (Continue,
              emit (Below_minimum idx (c_symbol c) order_notional (MIN_ORDER_NOTIONAL E)) st)
        else
          let amount_base = fdiv order_notional (c_price c);
              market_symbol = c_symbol c @ [47] @ BASE_CURRENCY E;
              st = emit (Sizing idx (c_symbol c) order_notional market_symbol) st
          in
          (case create_market_buy_order E idx market_symbol amount_base of
             Order_ok oid \<Rightarrow>
               (Continue,
                emit (Order_placed idx (c_symbol c) oid order_notional
                        (fsub (remaining_funds st) order_notional))
                  (st\<lparr>remaining_funds := fsub (remaining_funds st) order_notional,
                      orders_placed := orders_placed st @
                        [\<lparr>ord_row = idx, ord_symbol = c_symbol c,
                          ord_market_symbol = market_symbol, notional = order_notional,
                          amount = amount_base, order_id = oid\<rparr>]\<rparr>))
           | Base_error e \<Rightarrow> (Continue, emit (Order_failed idx (c_symbol c) e) st)
           | Other_exception e \<Rightarrow> (Raise e, st)))"

definition process_row :: "env \<Rightarrow> nat \<Rightarrow> pystr list \<Rightarrow> state \<Rightarrow> control \<times> state" where
  "process_row E idx row st =
     (case evaluate_row E idx row of
        Inl ev \<Rightarrow> (Continue, emit ev st)
      | Inr c \<Rightarrow> place_order E idx c st)"

subsection \<open>The loop and the run\<close>

datatype exit = Finished | Uncaught pystr

text \<open>The \<open>for\<close> loop of line 188 from row number \<open>idx\<close> on.\<close>

fun scan :: "env \<Rightarrow> nat \<Rightarrow> pystr list list \<Rightarrow> state \<Rightarrow> state \<times> exit" where
  "scan E idx [] st = (st, Finished)"
| "scan E idx (row # rows) st =
     (case process_row E idx row st of
        (Continue, st') \<Rightarrow> scan E (idx + 1) rows st'
      | (Break, st') \<Rightarrow> (st', Finished)
      | (Raise e, st') \<Rightarrow> (st', Uncaught e))"

text \<open>
  \<open>main\<close> from line 146 on, given the values of the worksheet and the free balance the
  exchange reports (\<open>None\<close> when neither lookup finds one).
\<close>

datatype run_result =
  No_data_rows
| Fatal_no_balance
| No_available_funds
| Ran state exit

definition run :: "env \<Rightarrow> pystr list list \<Rightarrow> pyfloat option \<Rightarrow> run_result" where
  "run E all_values free_funds =
     (if length all_values < 2 then No_data_rows
      else
        let data_rows = tl all_values in
        (case free_funds of
           None \<Rightarrow> Fatal_no_balance
         | Some funds \<Rightarrow>
             if fle funds (Fin 0) then No_available_funds
             else
               (case scan E 2 data_rows
                       \<lparr>remaining_funds = funds, orders_placed = [], printed = []\<rparr> of
                  (st, ex) \<Rightarrow> Ran st ex)))"

text \<open>
  An entry of \<open>orders_placed\<close> is confirmed when the exchange returns an order, with the
  identifier of the entry, to the request of the entry at its row.
\<close>

definition confirmed :: "env \<Rightarrow> order \<Rightarrow> bool" where
  "confirmed E p \<longleftrightarrow>
     create_market_buy_order E (ord_row p) (ord_market_symbol p) (amount p)
       = Order_ok (order_id p)"

text \<open>An exchange that returns an order only to a request of an amount greater than zero.\<close>

definition positive_amounts_only :: "env \<Rightarrow> bool" where
  "positive_amounts_only E \<longleftrightarrow>
     (\<forall>idx market_symbol amount_base oid.
        create_market_buy_order E idx market_symbol amount_base = Order_ok oid \<longrightarrow>
          flt (Fin 0) amount_base)"

text \<open>
  What the loop prints from a state whose funds are not positive: a row that fails a
  check of \<open>evaluate_row\<close> is skipped with its own line, and the first row that passes
  them all ends the loop.
\<close>

fun exhausted_trace :: "env \<Rightarrow> nat \<Rightarrow> pystr list list \<Rightarrow> event list" where
  "exhausted_trace E idx [] = []"
| "exhausted_trace E idx (row # rows) =
     (case evaluate_row E idx row of
        Inl ev \<Rightarrow> ev # exhausted_trace E (idx + 1) rows
      | Inr c \<Rightarrow> [No_remaining_funds])"

subsection \<open>A concrete environment, for closed examples\<close>

text \<open>
  The theorems below hold for every environment. The examples run in this one: the
  base currency is USD; \<open>float\<close> is cut down to the words \<open>nan\<close>, \<open>inf\<close> and \<open>infinity\<close>
  in any case and to plain decimal numerals, both with an optional sign (no exponent, no
  underscore), on which it returns what Python returns; \<open>upper\<close> is cut down to the ASCII
  letters; and the reply of the exchange is a function of the row number and the amount.
\<close>

definition ascii :: "string \<Rightarrow> pystr" where
  "ascii s = map of_char s"

definition digit_value :: "pystr \<Rightarrow> nat" where
  "digit_value ds = foldl (\<lambda>a c. 10 * a + (c - 48)) 0 ds"

definition isdigits :: "pystr \<Rightarrow> bool" where
  "isdigits ds = list_all (\<lambda>c. 48 \<le> c \<and> c \<le> 57) ds"

definition unsigned_decimal :: "pystr \<Rightarrow> real option" where
  "unsigned_decimal s =
     (let ip = takeWhile (\<lambda>c. c \<noteq> 46) s;
          fp = drop 1 (dropWhile (\<lambda>c. c \<noteq> 46) s)
      in if isdigits ip \<and> isdigits fp \<and> (ip \<noteq> [] \<or> fp \<noteq> [])
         then Some (real (digit_value ip) + real (digit_value fp) / 10 ^ length fp)
         else None)"

definition ascii_lower :: "pystr \<Rightarrow> pystr" where
  "ascii_lower s = map (\<lambda>c. if 65 \<le> c \<and> c \<le> 90 then c + 32 else c) s"

definition unsigned_float :: "pystr \<Rightarrow> pyfloat option" where
  "unsigned_float s =
     (if ascii_lower s = ascii ''nan'' then Some NaN
      else if ascii_lower s = ascii ''inf'' \<or> ascii_lower s = ascii ''infinity'' then Some PInf
      else map_option b64 (unsigned_decimal s))"

definition decimal_float :: "pystr \<Rightarrow> pyfloat option" where
  "decimal_float s =
     (case strip s of
        [] \<Rightarrow> None
      | c # r \<Rightarrow>
          if c = 45 then map_option fneg (unsigned_float r)
          else if c = 43 then unsigned_float r
          else unsigned_float (c # r))"

definition ascii_upper :: "pystr \<Rightarrow> pystr" where
  "ascii_upper s = map (\<lambda>c. if 97 \<le> c \<and> c \<le> 122 then c - 32 else c) s"

text \<open>
  Three exchanges: \<open>accept\<close> returns an order to every request; \<open>accept_positive\<close>
  returns one when the amount is greater than zero and raises a \<open>ccxt.BaseError\<close>
  otherwise; \<open>reject_at k\<close> is \<open>accept_positive\<close> but for the row \<open>k\<close>, at which it
  raises a \<open>ccxt.BaseError\<close>.
\<close>

definition accept :: "nat \<Rightarrow> pyfloat \<Rightarrow> exchange_reply" where
  "accept idx amount_base = Order_ok (Some (ascii ''OID''))"

definition accept_positive :: "nat \<Rightarrow> pyfloat \<Rightarrow> exchange_reply" where
  "accept_positive idx amount_base =
     (if flt (Fin 0) amount_base then Order_ok (Some (ascii ''OID''))
      else Base_error (ascii ''invalid volume''))"

definition reject_at :: "nat \<Rightarrow> nat \<Rightarrow> pyfloat \<Rightarrow> exchange_reply" where
  "reject_at k idx amount_base =
     (if idx = k then Base_error (ascii ''rejected'') else accept_positive idx amount_base)"

definition demo_env :: "pyfloat \<Rightarrow> (nat \<Rightarrow> pyfloat \<Rightarrow> exchange_reply) \<Rightarrow> env" where
  "demo_env m reply =
     \<lparr>BASE_CURRENCY = ascii ''USD'', MIN_ORDER_NOTIONAL = m, py_float = decimal_float,
      py_upper = ascii_upper,
      create_market_buy_order = (\<lambda>idx market_symbol amount_base. reply idx amount_base)\<rparr>"

text \<open>
  A row of sixteen cells: symbol, price, percentage down, long moving average, icon and
  sentiment in their columns, the other ten empty.
\<close>

definition sheet_row ::
  "string \<Rightarrow> string \<Rightarrow> string \<Rightarrow> string \<Rightarrow> pystr \<Rightarrow> string \<Rightarrow> pystr list" where
  "sheet_row sy price pct ma icon sent =
     [ascii sy, ascii price, ascii pct, [], [], [], [], [], ascii ma, [], [], [], [], [],
      icon, ascii sent]"

definition start_state :: "pyfloat \<Rightarrow> state" where
  "start_state funds = \<lparr>remaining_funds = funds, orders_placed = [], printed = []\<rparr>"

text \<open>
  The rows of the examples, all with the first icon of the table but \<open>row_E\<close>, whose icon
  U+1F9CA is not in it: \<open>row_A\<close> has tier 0.05 and the ratio and sentiment 1; \<open>row_B\<close> has
  tier 0.15 and a long moving average of twenty times the price; \<open>row_C\<close> is \<open>row_A\<close>
  with an empty sentiment cell, \<open>row_N\<close> is \<open>row_A\<close> with the long moving average
  \<open>nan\<close>, \<open>row_D\<close> with a negative one. The candidates are what \<open>evaluate_row\<close> makes of the rows that pass.
\<close>

definition row_A :: "pystr list" where
  "row_A = sheet_row ''eth'' ''2'' ''-10'' ''2'' [128142] ''1.0''"

definition row_B :: "pystr list" where
  "row_B = sheet_row ''btc'' ''2'' ''-60'' ''40'' [128142] ''1''"

definition row_C :: "pystr list" where
  "row_C = sheet_row ''eth'' ''2'' ''-10'' ''2'' [128142] []"

definition row_N :: "pystr list" where
  "row_N = sheet_row ''eth'' ''2'' ''-10'' ''nan'' [128142] ''1.0''"

definition row_D :: "pystr list" where
  "row_D = sheet_row ''eth'' ''2'' ''-10'' ''-100'' [128142] ''1''"

definition row_E :: "pystr list" where
  "row_E = sheet_row ''sol'' ''2'' ''-10'' ''2'' [129482] ''1''"

definition cand_A :: candidate where
  "cand_A = \<lparr>c_symbol = ascii ''ETH'', c_price = Fin 2, c_pct_down = Fin (- 10),
     c_tier_fraction = b64 0.05, c_icon = [128142], c_icon_mult = b64 1.0,
     c_ma_ratio = Fin 1, c_sent_mult = Fin 1\<rparr>"

definition cand_B :: candidate where
  "cand_B = \<lparr>c_symbol = ascii ''BTC'', c_price = Fin 2, c_pct_down = Fin (- 60),
     c_tier_fraction = b64 0.15, c_icon = [128142], c_icon_mult = b64 1.0,
     c_ma_ratio = Fin 20, c_sent_mult = Fin 1\<rparr>"

definition cand_D :: candidate where
  "cand_D = \<lparr>c_symbol = ascii ''ETH'', c_price = Fin 2, c_pct_down = Fin (- 10),
     c_tier_fraction = b64 0.05, c_icon = [128142], c_icon_mult = b64 1.0,
     c_ma_ratio = Fin (- 50), c_sent_mult = Fin 1\<rparr>"

definition cand_N :: candidate where
  "cand_N = \<lparr>c_symbol = ascii ''ETH'', c_price = Fin 2, c_pct_down = Fin (- 10),
     c_tier_fraction = b64 0.05, c_icon = [128142], c_icon_mult = b64 1.0,
     c_ma_ratio = NaN, c_sent_mult = Fin 1\<rparr>"

section \<open>Auxiliary facts\<close>

subsection \<open>Evaluating the definitions\<close>

text \<open>
  The facts that unfold the rounding and the concrete environment when an example is
  computed.
\<close>

lemmas b64_eval = b64_def b64_exp_def b64_man_def expo_def rne_def pow2_def floorlog2.simps Let_def

lemmas COL_defs =
  COL_SYMBOL_def COL_PRICE_def COL_PCT_DOWN_def COL_LONG_MA_def COL_ICON_def COL_SENTIMENT_def

lemma ascii_Nil_iff [simp]: "ascii s = [] \<longleftrightarrow> s = []"
  by (simp add: ascii_def)

lemma demo_env_fields [simp]:
  "BASE_CURRENCY (demo_env m r) = ascii ''USD''"
  "MIN_ORDER_NOTIONAL (demo_env m r) = m"
  "py_float (demo_env m r) = decimal_float"
  "py_upper (demo_env m r) = ascii_upper"
  "create_market_buy_order (demo_env m r) idx ms a = r idx a"
  by (simp_all add: demo_env_def)

lemmas demo_defs = sheet_row_def decimal_float_def unsigned_float_def ascii_lower_def ascii_def
  strip_def isspace_def unsigned_decimal_def isdigits_def digit_value_def ascii_upper_def

lemmas row_defs = evaluate_row_def ICON_MULTIPLIERS_def parse_float_def
  determine_tier_fraction_def sentiment_multiplier_def sentiment_cell_def COL_defs Let_def

lemma decimal_float_numeral: "decimal_float (ascii '' -37.5 '') = Some (Fin (- 37.5))"
  by (simp add: demo_defs b64_eval)

lemma decimal_float_words:
  "decimal_float (ascii ''NaN'') = Some NaN"
  "decimal_float (ascii ''-Infinity'') = Some NInf"
  "decimal_float (ascii ''n/a'') = None"
  by (simp_all add: demo_defs b64_eval)

lemma evaluate_row_A [simp]: "evaluate_row (demo_env m r) idx row_A = Inr cand_A"
  by (simp add: row_A_def cand_A_def row_defs demo_defs b64_eval)

lemma evaluate_row_B [simp]: "evaluate_row (demo_env m r) idx row_B = Inr cand_B"
  by (simp add: row_B_def cand_B_def row_defs demo_defs b64_eval)

lemma evaluate_row_N [simp]: "evaluate_row (demo_env m r) idx row_N = Inr cand_N"
  by (simp add: row_N_def cand_N_def row_defs demo_defs b64_eval)

subsection \<open>Rounding\<close>

text \<open>
  \<open>pow2\<close> is the power of two, \<open>expo\<close> the binary exponent, and \<open>rne\<close> rounds to an
  integer next to its argument. From these: rounding is monotone below a number of the
  format (\<open>b64_between\<close>), and rounding a rounded number changes nothing (\<open>b64_idem\<close>).
\<close>

lemma pow2_powr: "pow2 e = 2 powr (of_int e)"
  by (simp add: pow2_def powr_int)

lemma pow2_pos [simp]: "0 < pow2 e"
  by (simp add: pow2_powr)

lemma pow2_nonneg [simp]: "0 \<le> pow2 e"
  by (simp add: pow2_powr)

lemma pow2_neq0 [simp]: "pow2 e \<noteq> 0"
  by (simp add: pow2_powr)

lemma pow2_add: "pow2 (a + b) = pow2 a * pow2 b"
  by (simp add: pow2_powr powr_add)

lemma pow2_le_iff [simp]: "pow2 a \<le> pow2 b \<longleftrightarrow> a \<le> b"
  by (simp add: pow2_powr)

lemma pow2_less_iff [simp]: "pow2 a < pow2 b \<longleftrightarrow> a < b"
  by (simp add: pow2_powr)

lemma pow2_neg: "pow2 (- int n) = 1 / 2 ^ n"
  by (simp add: pow2_powr powr_minus powr_realpow divide_inverse)

lemma pow2_neg1: "pow2 (- int n - 1) = 1 / 2 ^ (n + 1)"
proof -
  have "- int n - 1 = - int (n + 1)" by simp
  then show ?thesis by (simp only: pow2_neg)
qed

lemma pow2_nat: "0 \<le> e \<Longrightarrow> pow2 e = of_int (2 ^ nat e)"
  by (simp add: pow2_def)

lemma pow2_div: "a \<le> b \<Longrightarrow> pow2 b / pow2 a = of_int (2 ^ nat (b - a))"
proof -
  assume "a \<le> b"
  then have "pow2 b = pow2 a * pow2 (b - a)"
    using pow2_add[of a "b - a"] by simp
  then show ?thesis
    using \<open>a \<le> b\<close> by (simp add: pow2_nat)
qed

lemma floorlog2_bounds: "0 < n \<Longrightarrow> 2 ^ floorlog2 n \<le> n \<and> n < 2 ^ (floorlog2 n + 1)"
proof (induction n rule: floorlog2.induct)
  case (1 n)
  show ?case
  proof (cases "n < 2")
    case True
    with "1.prems" show ?thesis by (simp add: floorlog2.simps)
  next
    case False
    then have "0 < n div 2" by simp
    with "1.IH" False have "2 ^ floorlog2 (n div 2) \<le> n div 2 \<and> n div 2 < 2 ^ (floorlog2 (n div 2) + 1)"
      by simp
    then show ?thesis
      using False by (simp add: floorlog2.simps[of n]) linarith
  qed
qed

lemma expo_bounds:
  assumes "x \<noteq> 0"
  shows "pow2 (expo x) \<le> \<bar>x\<bar> \<and> \<bar>x\<bar> < pow2 (expo x + 1)"
proof (cases "1 \<le> \<bar>x\<bar>")
  case True
  define n where "n = nat \<lfloor>\<bar>x\<bar>\<rfloor>"
  have n: "0 < n" "real n \<le> \<bar>x\<bar>" "\<bar>x\<bar> < real n + 1"
    using True by (simp_all add: n_def)
  from floorlog2_bounds[OF n(1)] have nb: "2 ^ floorlog2 n \<le> n" "n + 1 \<le> 2 ^ (floorlog2 n + 1)"
    by auto
  have r1: "(2::real) ^ floorlog2 n \<le> real n"
    using of_nat_mono[OF nb(1), where 'a = real] by simp
  have r2: "real n + 1 \<le> (2::real) ^ (floorlog2 n + 1)"
    using of_nat_mono[OF nb(2), where 'a = real] by simp
  have "(2::real) ^ floorlog2 n \<le> \<bar>x\<bar>" and "\<bar>x\<bar> < (2::real) ^ (floorlog2 n + 1)"
    using r1 r2 n by linarith+
  moreover have "expo x = int (floorlog2 n)"
    using True by (simp add: expo_def n_def)
  ultimately show ?thesis
    by (simp add: pow2_def nat_add_distrib)
next
  case False
  define y where "y = 1 / \<bar>x\<bar>"
  define c where "c = nat \<lceil>y\<rceil>"
  have y: "1 < y" using False assms by (simp add: y_def)
  have cy: "1 < \<lceil>y\<rceil>" using y by (simp add: less_ceiling_iff)
  have c2: "2 \<le> c"
    using cy unfolding c_def by linarith
  have rc: "real c = of_int \<lceil>y\<rceil>"
    using cy unfolding c_def by (subst of_nat_nat) simp_all
  have rc1: "real (c - 1) = real c - 1"
    using c2 by (simp add: of_nat_diff)
  have "of_int \<lceil>y\<rceil> - 1 < y" and "y \<le> of_int \<lceil>y\<rceil>"
    using ceiling_correct[of y] by simp_all
  then have c: "0 < c - 1" "real (c - 1) < y" "y \<le> real c"
    using c2 rc rc1 by simp_all
  from floorlog2_bounds[OF c(1)] have cb: "2 ^ floorlog2 (c - 1) \<le> c - 1"
    "c \<le> 2 ^ (floorlog2 (c - 1) + 1)"
    using c(1) by auto
  have r1: "(2::real) ^ floorlog2 (c - 1) \<le> real (c - 1)"
    using of_nat_mono[OF cb(1), where 'a = real] by simp
  have r2: "real c \<le> (2::real) ^ (floorlog2 (c - 1) + 1)"
    using of_nat_mono[OF cb(2), where 'a = real] by simp
  have b: "(2::real) ^ floorlog2 (c - 1) < y" "y \<le> (2::real) ^ (floorlog2 (c - 1) + 1)"
    using r1 r2 c by linarith+
  have e: "expo x = - int (floorlog2 (c - 1)) - 1"
    using False by (simp add: expo_def c_def y_def)
  have x: "\<bar>x\<bar> = 1 / y" "0 < \<bar>x\<bar>" using assms by (simp_all add: y_def)
  have "1 / (2::real) ^ (floorlog2 (c - 1) + 1) \<le> 1 / y"
    using b(2) y by (intro divide_left_mono) simp_all
  moreover have "1 / y < 1 / (2::real) ^ floorlog2 (c - 1)"
    using b(1) y by (intro divide_strict_left_mono) simp_all
  moreover have "pow2 (- int (floorlog2 (c - 1)) - 1) = 1 / 2 ^ (floorlog2 (c - 1) + 1)"
    by (rule pow2_neg1)
  moreover have "pow2 (- int (floorlog2 (c - 1)) - 1 + 1) = 1 / 2 ^ floorlog2 (c - 1)"
    using pow2_neg[of "floorlog2 (c - 1)"] by simp
  ultimately show ?thesis
    unfolding e x(1) by simp
qed

lemma expo_unique:
  assumes "pow2 k \<le> \<bar>x\<bar>" and "\<bar>x\<bar> < pow2 (k + 1)"
  shows "expo x = k"
proof -
  have "0 < \<bar>x\<bar>" using assms(1) pow2_pos[of k] by linarith
  then have "x \<noteq> 0" by simp
  from expo_bounds[OF this] have "pow2 (expo x) < pow2 (k + 1)" "pow2 k < pow2 (expo x + 1)"
    using assms by linarith+
  then show ?thesis by simp
qed

lemma rne_floor_ceiling: "\<lfloor>x\<rfloor> \<le> rne x \<and> rne x \<le> \<lceil>x\<rceil>"
  by (auto simp add: rne_def Let_def ceiling_altdef)

lemma rne_of_int [simp]: "rne (of_int n) = n"
  by (simp add: rne_def)

lemma rne_le: "x \<le> of_int n \<Longrightarrow> rne x \<le> n"
  using rne_floor_ceiling[of x] by (meson ceiling_le order_trans)

lemma rne_ge: "of_int n \<le> x \<Longrightarrow> n \<le> rne x"
  using rne_floor_ceiling[of x] by (meson le_floor_iff order_trans)

lemma b64_alt:
  "x \<noteq> 0 \<Longrightarrow> b64 x =
     (if 971 < b64_exp x \<or> (b64_exp x = 971 \<and> 2 ^ 53 \<le> b64_man x)
      then (if 0 < x then PInf else NInf)
      else Fin (sgn x * (of_int (b64_man x) * pow2 (b64_exp x))))"
  by (simp add: b64_def)

lemma b64_man_nonneg: "0 \<le> b64_man x"
  unfolding b64_man_def by (rule rne_ge) simp

lemma b64_man_le: "x \<noteq> 0 \<Longrightarrow> b64_man x \<le> 2 ^ 53"
proof -
  assume x: "x \<noteq> 0"
  have "expo x + 1 \<le> b64_exp x + 53"
    by (simp add: b64_exp_def)
  then have "pow2 (expo x + 1) \<le> pow2 (b64_exp x + 53)"
    by simp
  with expo_bounds[OF x] have "\<bar>x\<bar> < pow2 (b64_exp x) * pow2 53"
    by (simp add: pow2_add)
  then have "\<bar>x\<bar> / pow2 (b64_exp x) \<le> of_int (2 ^ 53)"
    by (simp add: pow2_def field_simps)
  then show ?thesis
    unfolding b64_man_def by (rule rne_le)
qed

lemma expo_mono: "x \<noteq> 0 \<Longrightarrow> \<bar>x\<bar> \<le> \<bar>y\<bar> \<Longrightarrow> expo x \<le> expo y"
proof -
  assume x: "x \<noteq> 0" and le: "\<bar>x\<bar> \<le> \<bar>y\<bar>"
  then have y: "y \<noteq> 0" by auto
  from expo_bounds[OF x] expo_bounds[OF y] le have "pow2 (expo x) < pow2 (expo y + 1)"
    by linarith
  then show ?thesis by simp
qed

lemma b64_between:
  assumes "0 \<le> x" and "x \<le> b" and "b64 b = Fin b"
  shows "\<exists>r. b64 x = Fin r \<and> 0 \<le> r \<and> r \<le> b"
proof (cases "x = 0")
  case True
  then show ?thesis using assms by (simp add: b64_def)
next
  case False
  then have x: "0 < x" and b: "0 < b" using assms by simp_all
  then have bn: "b \<noteq> 0" by simp
  from assms(3) have nov: "\<not> (971 < b64_exp b \<or> (b64_exp b = 971 \<and> 2 ^ 53 \<le> b64_man b))"
    and bv: "b = of_int (b64_man b) * pow2 (b64_exp b)"
    using b by (auto simp add: b64_alt[OF bn] split: if_splits)
  have "expo x \<le> expo b"
    using expo_mono[OF False] x b assms(2) by simp
  then have ee: "b64_exp x \<le> b64_exp b"
    by (simp add: b64_exp_def)
  have "b / pow2 (b64_exp x) = of_int (b64_man b) * (pow2 (b64_exp b) / pow2 (b64_exp x))"
    using bv by simp
  also have "\<dots> = of_int (b64_man b * 2 ^ nat (b64_exp b - b64_exp x))"
    by (simp add: pow2_div[OF ee])
  finally have bq: "b / pow2 (b64_exp x) = of_int (b64_man b * 2 ^ nat (b64_exp b - b64_exp x))" .
  have "\<bar>x\<bar> / pow2 (b64_exp x) \<le> b / pow2 (b64_exp x)"
    using x assms(2) by (simp add: divide_right_mono)
  then have ml: "b64_man x \<le> b64_man b * 2 ^ nat (b64_exp b - b64_exp x)"
    unfolding b64_man_def bq by (rule rne_le)
  then have "real_of_int (b64_man x) \<le> real_of_int (b64_man b * 2 ^ nat (b64_exp b - b64_exp x))"
    by (simp only: of_int_le_iff)
  then have "of_int (b64_man x) * pow2 (b64_exp x)
      \<le> of_int (b64_man b * 2 ^ nat (b64_exp b - b64_exp x)) * pow2 (b64_exp x)"
    by (rule mult_right_mono) simp
  also have "\<dots> = b"
    using bq by (simp add: field_simps)
  finally have le: "of_int (b64_man x) * pow2 (b64_exp x) \<le> b" .
  have "\<not> (971 < b64_exp x \<or> (b64_exp x = 971 \<and> 2 ^ 53 \<le> b64_man x))"
    using nov ee ml by auto
  then have "b64 x = Fin (of_int (b64_man x) * pow2 (b64_exp x))"
    using x by (simp add: b64_alt[OF False])
  moreover have "0 \<le> of_int (b64_man x) * pow2 (b64_exp x)"
    using b64_man_nonneg[of x] by (simp add: less_imp_le)
  ultimately show ?thesis using le by blast
qed

lemma pow2_53: "pow2 53 = 2 ^ 53" and pow2_52: "pow2 52 = 2 ^ 52"
  by (simp_all add: pow2_def)

lemma b64_exact:
  assumes "0 < v" and "\<bar>r\<bar> = v" and "e' \<le> e" and "v = of_int m * pow2 e"
    and "b64_exp r = e'" and "e \<le> 971" and "m < 2 ^ 53"
  shows "b64 r = Fin r"
proof -
  have r: "r \<noteq> 0" using assms(1,2) by auto
  have "\<bar>r\<bar> / pow2 e' = of_int m * (pow2 e / pow2 e')"
    using assms(2,4) by simp
  also have "\<dots> = of_int (m * 2 ^ nat (e - e'))"
    by (simp add: pow2_div[OF assms(3)])
  finally have q: "\<bar>r\<bar> / pow2 e' = of_int (m * 2 ^ nat (e - e'))" .
  have man: "b64_man r = m * 2 ^ nat (e - e')"
    unfolding b64_man_def assms(5) q by (rule rne_of_int)
  have "of_int (b64_man r) * pow2 e' = \<bar>r\<bar>"
    using q unfolding man by (simp add: field_simps)
  then have val: "sgn r * (of_int (b64_man r) * pow2 (b64_exp r)) = r"
    unfolding assms(5) by (simp add: sgn_mult_abs)
  have "\<not> (971 < b64_exp r \<or> (b64_exp r = 971 \<and> 2 ^ 53 \<le> b64_man r))"
  proof (cases "e' = 971")
    case True
    then have "e = e'" using assms(3,6) by simp
    then show ?thesis using assms(5,7) True by (simp add: man)
  next
    case False
    then show ?thesis using assms(3,5,6) by simp
  qed
  then show ?thesis
    using val by (simp add: b64_alt[OF r])
qed

lemma b64_idem:
  assumes "b64 x = Fin r"
  shows "b64 r = Fin r"
proof (cases "x = 0")
  case True
  then show ?thesis using assms by (simp add: b64_def)
next
  case False
  define e where "e = b64_exp x"
  define m where "m = b64_man x"
  from assms have nov: "\<not> (971 < e \<or> (e = 971 \<and> 2 ^ 53 \<le> m))"
    and rv: "r = sgn x * (of_int m * pow2 e)"
    by (auto simp add: b64_alt[OF False] e_def m_def split: if_splits)
  have m0: "0 \<le> m" and m53: "m \<le> 2 ^ 53"
    using b64_man_nonneg[of x] b64_man_le[OF False] by (simp_all add: m_def)
  have e_lo: "- 1074 \<le> e" by (simp add: e_def b64_exp_def)
  have e_hi: "e \<le> 971" using nov by simp
  show ?thesis
  proof (cases "m = 0")
    case True
    then show ?thesis using rv by (simp add: b64_def)
  next
    case mpos: False
    define v where "v = of_int m * pow2 e"
    have v: "0 < v" using mpos m0 by (simp add: v_def)
    have av: "\<bar>r\<bar> = v"
      using False v unfolding rv v_def[symmetric] by (simp add: abs_mult)
    have rn: "r \<noteq> 0" using v av by auto
    show ?thesis
    proof (cases "m < 2 ^ 53")
      case True
      then have "of_int m < (2::real) ^ 53"
        by (metis of_int_less_iff of_int_numeral of_int_power)
      then have "v < 2 ^ 53 * pow2 e"
        unfolding v_def by (intro mult_strict_right_mono) simp_all
      also have "\<dots> = pow2 (e + 53)"
        by (simp add: pow2_add pow2_53)
      finally have "\<bar>r\<bar> < pow2 (e + 53)" using av by simp
      with expo_bounds[OF rn] have "pow2 (expo r) < pow2 (e + 53)" by linarith
      then have "expo r - 52 \<le> e" by simp
      then have "b64_exp r \<le> e" using e_lo by (simp add: b64_exp_def)
      from b64_exact[OF v av this v_def refl e_hi True] show ?thesis .
    next
      case False
      then have m: "m = 2 ^ 53" using m53 by simp
      then have e970: "e + 1 \<le> 971" using nov e_hi by auto
      have vp: "v = pow2 (e + 53)"
        by (simp add: v_def m pow2_add pow2_53)
      have "pow2 (e + 53) \<le> \<bar>r\<bar>" and "\<bar>r\<bar> < pow2 (e + 53 + 1)"
        using av vp by simp_all
      then have "expo r = e + 53" by (rule expo_unique)
      then have ex: "b64_exp r = e + 1"
        using e_lo by (simp add: b64_exp_def)
      have "e + 53 = e + 1 + 52" by simp
      then have "pow2 (e + 53) = pow2 (e + 1) * pow2 52"
        by (simp only: pow2_add)
      then have "v = of_int (2 ^ 52) * pow2 (e + 1)"
        unfolding vp by (simp add: pow2_52)
      from b64_exact[OF v av _ this ex e970] show ?thesis by simp
    qed
  qed
qed

subsection \<open>Comparisons\<close>

lemma fle_refl [simp]: "a \<noteq> NaN \<Longrightarrow> fle a a"
  by (cases a) simp_all

lemma flt_not_NaN [simp]: "\<not> flt NaN b" "\<not> flt a NaN" "\<not> fle NaN b" "\<not> fle a NaN"
  by (cases b; simp; fail) (cases a; simp; fail)+

lemma not_flt_fle: "a \<noteq> NaN \<Longrightarrow> b \<noteq> NaN \<Longrightarrow> \<not> flt a b \<Longrightarrow> fle b a"
  by (cases a; cases b) simp_all

lemma fle_trans: "fle a b \<Longrightarrow> fle b c \<Longrightarrow> fle a c"
  by (cases a; cases b; cases c) simp_all

lemma fmul_NaN [simp]: "fmul NaN b = NaN" "fmul a NaN = NaN"
  by (cases a; simp)+

lemma py_min_NaN [simp]: "py_min NaN b = NaN"
  by (simp add: py_min_def)

lemma py_min_le:
  assumes "py_min a b \<noteq> NaN" and "b \<noteq> NaN"
  shows "fle (py_min a b) b"
  using assms by (cases a; cases b) (simp_all add: py_min_def)

lemma py_min_cases: "py_min a b = a \<or> py_min a b = b"
  by (simp add: py_min_def)

text \<open>Rounding keeps the sign, so a quotient greater than zero has a dividend greater than zero.\<close>

lemma b64_pos: "flt (Fin 0) (b64 z) \<Longrightarrow> 0 < z"
proof (rule ccontr)
  assume p: "flt (Fin 0) (b64 z)" and "\<not> 0 < z"
  then have z: "z \<le> 0" by simp
  show False
  proof (cases "z = 0")
    case True
    with p show False by (simp add: b64_def)
  next
    case False
    with z have neg: "z < 0" by simp
    have "0 \<le> of_int (b64_man z) * pow2 (b64_exp z)"
      using b64_man_nonneg[of z] by simp
    with p neg show False
      by (simp add: b64_alt[OF False] split: if_splits)
  qed
qed

lemma fdiv_positive:
  assumes "\<not> fle price (Fin 0)" and "flt (Fin 0) (fdiv n price)"
  shows "flt (Fin 0) n"
proof (cases n)
  case (Fin x)
  show ?thesis
  proof (cases price)
    case (Fin y)
    with assms(1) have y: "0 < y" by simp
    from assms(2) \<open>n = Fin x\<close> Fin y have "flt (Fin 0) (b64 (x / y))" by simp
    then have "0 < x / y" by (rule b64_pos)
    with y have "0 < x" by (simp add: zero_less_divide_iff)
    then show ?thesis using \<open>n = Fin x\<close> by simp
  qed (use assms \<open>n = Fin x\<close> in simp_all)
next
  case PInf
  then show ?thesis by simp
next
  case NInf
  with assms show ?thesis by (cases price) (simp_all add: signed_inf_def split: if_splits)
next
  case NaN
  with assms show ?thesis by simp
qed

subsection \<open>Strings and parsing\<close>

lemma strip_Nil [simp]: "strip [] = []"
  by (simp add: strip_def)



text \<open>A stripped string does not begin with a space, so stripping it again changes nothing.\<close>

lemma dropWhile_strip: "dropWhile isspace (strip s) = strip s"
proof (cases "dropWhile isspace s")
  case Nil
  show ?thesis unfolding strip_def Nil by simp
next
  case (Cons y ys)
  then have ny: "\<not> isspace y"
    by (metis hd_dropWhile list.sel(1) list.distinct(1))
  have "\<exists>zs. dropWhile isspace (rev ys @ [y]) = zs @ [y]"
    using ny by (simp add: dropWhile_append)
  then obtain zs where "dropWhile isspace (rev (y # ys)) = zs @ [y]"
    by auto
  then have "strip s = y # rev zs"
    unfolding strip_def Cons by simp
  then show ?thesis using ny by simp
qed

lemma strip_idem [simp]: "strip (strip s) = strip s"
proof -
  have "dropWhile isspace (rev (strip s)) = rev (strip s)"
    by (simp add: strip_def)
  then show ?thesis
    unfolding strip_def[of "strip s"] dropWhile_strip by simp
qed

lemma parse_float_Some:
  "parse_float E (Some s) = (if strip s = [] then None else py_float E (strip s))"
  by (simp add: parse_float_def Let_def split: option.splits)

lemma sentiment_multiplier_Some:
  "sentiment_multiplier E (Some s) =
     (if strip s = [] then None
      else case py_float E (strip s) of
             None \<Rightarrow> None
           | Some v \<Rightarrow> if flt (Fin 0) v then Some v else None)"
  by (simp add: sentiment_multiplier_def parse_float_Some Let_def)

subsection \<open>One row\<close>

lemma emit_fields [simp]:
  "remaining_funds (emit ev st) = remaining_funds st"
  "orders_placed (emit ev st) = orders_placed st"
  "printed (emit ev st) = printed st @ [ev]"
  by (simp_all add: emit_def)

lemma raw_notional_NaN [simp]: "raw_notional NaN c = NaN"
  by (simp add: raw_notional_def)

lemma order_notional_NaN_iff: "order_notional funds c = NaN \<longleftrightarrow> raw_notional funds c = NaN"
  by (cases "raw_notional funds c"; cases funds) (simp_all add: order_notional_def py_min_def)

lemma order_notional_le:
  assumes "raw_notional funds c \<noteq> NaN"
  shows "fle (order_notional funds c) funds"
proof -
  have "funds \<noteq> NaN" using assms by auto
  moreover have "order_notional funds c \<noteq> NaN"
    using assms by (simp add: order_notional_NaN_iff)
  ultimately show ?thesis
    unfolding order_notional_def by (intro py_min_le)
qed

lemma process_row_Inl:
  "evaluate_row E idx row = Inl ev \<Longrightarrow> process_row E idx row st = (Continue, emit ev st)"
  by (simp add: process_row_def)

lemma process_row_Inr:
  "evaluate_row E idx row = Inr c \<Longrightarrow> process_row E idx row st = place_order E idx c st"
  by (simp add: process_row_def)

lemma evaluate_row_InrD:
  assumes "evaluate_row E idx row = Inr c"
  shows "COL_SENTIMENT < length row"
    and "c_symbol c = py_upper E (strip (row ! COL_SYMBOL))"
    and "c_symbol c \<noteq> [] \<and> row ! COL_PRICE \<noteq> [] \<and> row ! COL_PCT_DOWN \<noteq> [] \<and>
         row ! COL_LONG_MA \<noteq> [] \<and> strip (row ! COL_ICON) \<noteq> []"
    and "ICON_MULTIPLIERS (strip (row ! COL_ICON)) = Some (c_icon_mult c)"
    and "parse_float E (Some (row ! COL_PRICE)) = Some (c_price c)"
    and "parse_float E (Some (row ! COL_PCT_DOWN)) = Some (c_pct_down c)"
    and "\<exists>long_ma. parse_float E (Some (row ! COL_LONG_MA)) = Some long_ma \<and>
           c_ma_ratio c = fdiv long_ma (c_price c)"
    and "\<not> fle (c_price c) (Fin 0)"
    and "determine_tier_fraction (c_pct_down c) = Some (c_tier_fraction c)"
    and "sentiment_multiplier E (Some (sentiment_cell row)) = Some (c_sent_mult c)"
  using assms
  by (auto simp add: evaluate_row_def Let_def COL_defs split: if_splits option.splits)

lemma evaluate_row_other_sentiment:
  assumes "evaluate_row E idx (row[COL_SENTIMENT := s]) = Inr c"
    and "sentiment_multiplier E (Some (sentiment_cell row)) = None"
  shows "evaluate_row E idx row = Inl (Sentiment_skip idx (c_symbol c))"
proof -
  note d = evaluate_row_InrD[OF assms(1)]
  from d(7) obtain long_ma where "parse_float E (Some (row ! COL_LONG_MA)) = Some long_ma"
    by (auto simp add: COL_defs)
  then show ?thesis
    using d(1-6,8,9) assms(2)
    by (simp add: evaluate_row_def Let_def COL_defs)
qed

lemma place_order_exhausted:
  "fle (remaining_funds st) (Fin 0) \<Longrightarrow>
   place_order E idx c st = (Break, emit No_remaining_funds st)"
  by (simp add: place_order_def)

lemma place_order_below:
  "\<not> fle (remaining_funds st) (Fin 0) \<Longrightarrow>
   flt (order_notional (remaining_funds st) c) (MIN_ORDER_NOTIONAL E) \<Longrightarrow>
   place_order E idx c st =
     (Continue, emit (Below_minimum idx (c_symbol c) (order_notional (remaining_funds st) c)
                        (MIN_ORDER_NOTIONAL E)) st)"
  by (simp add: place_order_def Let_def)

lemma place_order_submit:
  assumes "\<not> fle (remaining_funds st) (Fin 0)"
    and "\<not> flt (order_notional (remaining_funds st) c) (MIN_ORDER_NOTIONAL E)"
  shows "place_order E idx c st =
     (let n = order_notional (remaining_funds st) c;
          m = c_symbol c @ [47] @ BASE_CURRENCY E;
          st1 = emit (Sizing idx (c_symbol c) n m) st
      in case create_market_buy_order E idx m (fdiv n (c_price c)) of
           Order_ok oid \<Rightarrow>
             (Continue,
              emit (Order_placed idx (c_symbol c) oid n (fsub (remaining_funds st) n))
                (st1\<lparr>remaining_funds := fsub (remaining_funds st) n,
                     orders_placed := orders_placed st @
                       [\<lparr>ord_row = idx, ord_symbol = c_symbol c, ord_market_symbol = m,
                         notional = n, amount = fdiv n (c_price c), order_id = oid\<rparr>]\<rparr>))
         | Base_error e \<Rightarrow> (Continue, emit (Order_failed idx (c_symbol c) e) st1)
         | Other_exception e \<Rightarrow> (Raise e, st1))"
  using assms by (simp add: place_order_def Let_def split: exchange_reply.splits)

text \<open>Deducting from a balance a number between zero and the balance leaves a balance.\<close>

lemma fsub_balance:
  assumes "is_balance a" and "fle (Fin 0) n" and "fle n a"
  shows "is_balance (fsub a n) \<and> fle (fsub a n) a"
proof -
  from assms(1) obtain r where a: "a = Fin r" "0 \<le> r" "b64 r = Fin r"
    by (cases a) (simp_all add: is_balance_def)
  from assms(2,3) a obtain y where n: "n = Fin y" "0 \<le> y" "y \<le> r"
    by (cases n) simp_all
  have "0 \<le> r - y" "r - y \<le> r" using n by simp_all
  from b64_between[OF this a(3)] obtain r' where r': "b64 (r - y) = Fin r'" "0 \<le> r'" "r' \<le> r"
    by blast
  then have "b64 r' = Fin r'" by (simp add: b64_idem)
  then show ?thesis
    using a n r' by (simp add: is_balance_def)
qed

text \<open>
  The price of a row that passes the checks is not zero, so neither division of the loop
  divides by zero.
\<close>

lemma evaluate_row_price_nonzero:
  "evaluate_row E idx row = Inr c \<Longrightarrow> c_price c \<noteq> Fin 0"
  using evaluate_row_InrD(8)[of E idx row c] by auto

subsection \<open>The loop\<close>

lemma is_balance_fle [simp]: "is_balance a \<Longrightarrow> fle a a"
  by (cases a) (simp_all add: is_balance_def)

lemma is_balance_nonneg: "is_balance a \<Longrightarrow> fle (Fin 0) a"
  by (cases a) (simp_all add: is_balance_def)

lemma place_order_funds:
  assumes "place_order E idx c st = (ctl, st')" and price: "\<not> fle (c_price c) (Fin 0)"
  shows "\<exists>new. orders_placed st' = orders_placed st @ new \<and>
           remaining_funds st' = foldl fsub (remaining_funds st) (map notional new) \<and>
           (\<forall>p\<in>set new. confirmed E p \<and> \<not> flt (notional p) (MIN_ORDER_NOTIONAL E) \<and>
              (flt (Fin 0) (amount p) \<longrightarrow> flt (Fin 0) (notional p))) \<and>
           ((\<forall>p\<in>set new. fle (Fin 0) (notional p)) \<longrightarrow> is_balance (remaining_funds st) \<longrightarrow>
              is_balance (remaining_funds st') \<and> fle (remaining_funds st') (remaining_funds st))"
proof -
  define n where "n = order_notional (remaining_funds st) c"
  define m where "m = c_symbol c @ [47] @ BASE_CURRENCY E"
  have same: ?thesis if "orders_placed st' = orders_placed st"
    and "remaining_funds st' = remaining_funds st"
    using that by (intro exI[of _ "[]"]) simp
  show ?thesis
  proof (cases "fle (remaining_funds st) (Fin 0)")
    case True
    with assms have "st' = emit No_remaining_funds st"
      by (simp add: place_order_exhausted)
    then show ?thesis by (intro same) simp_all
  next
    case pos: False
    show ?thesis
    proof (cases "flt n (MIN_ORDER_NOTIONAL E)")
      case True
      with assms pos have "st' = emit (Below_minimum idx (c_symbol c) n (MIN_ORDER_NOTIONAL E)) st"
        by (simp add: place_order_below n_def)
      then show ?thesis by (intro same) simp_all
    next
      case ge: False
      note sub = place_order_submit[OF pos ge[unfolded n_def], of idx, folded n_def m_def]
      show ?thesis
      proof (cases "create_market_buy_order E idx m (fdiv n (c_price c))")
        case (Order_ok oid)
        define p where "p = \<lparr>ord_row = idx, ord_symbol = c_symbol c, ord_market_symbol = m,
          notional = n, amount = fdiv n (c_price c), order_id = oid\<rparr>"
        from assms sub Order_ok have st': "orders_placed st' = orders_placed st @ [p]"
          "remaining_funds st' = fsub (remaining_funds st) n"
          by (auto simp add: Let_def p_def emit_def)
        have conf: "confirmed E p"
          using Order_ok by (simp add: confirmed_def p_def)
        have bal: "is_balance (remaining_funds st') \<and> fle (remaining_funds st') (remaining_funds st)"
          if "fle (Fin 0) n" and "is_balance (remaining_funds st)"
        proof -
          have "n \<noteq> NaN" using that(1) by auto
          then have "raw_notional (remaining_funds st) c \<noteq> NaN"
            by (simp add: n_def order_notional_NaN_iff)
          then have "fle n (remaining_funds st)"
            unfolding n_def by (rule order_notional_le)
          from fsub_balance[OF that(2,1) this] show ?thesis
            by (simp add: st')
        qed
        have amt: "flt (Fin 0) (amount p) \<longrightarrow> flt (Fin 0) (notional p)"
          using fdiv_positive[OF price, of n] by (simp add: p_def)
        show ?thesis
          using st' conf ge bal amt by (intro exI[of _ "[p]"]) (simp add: p_def)
      next
        case (Base_error e)
        with assms sub have "st' = emit (Order_failed idx (c_symbol c) e)
            (emit (Sizing idx (c_symbol c) n m) st)"
          by (auto simp add: Let_def)
        then show ?thesis by (intro same) simp_all
      next
        case (Other_exception e)
        with assms sub have "st' = emit (Sizing idx (c_symbol c) n m) st"
          by (auto simp add: Let_def)
        then show ?thesis by (intro same) simp_all
      qed
    qed
  qed
qed

lemma process_row_funds:
  assumes "process_row E idx row st = (ctl, st')"
  shows "\<exists>new. orders_placed st' = orders_placed st @ new \<and>
           remaining_funds st' = foldl fsub (remaining_funds st) (map notional new) \<and>
           (\<forall>p\<in>set new. confirmed E p \<and> \<not> flt (notional p) (MIN_ORDER_NOTIONAL E) \<and>
              (flt (Fin 0) (amount p) \<longrightarrow> flt (Fin 0) (notional p))) \<and>
           ((\<forall>p\<in>set new. fle (Fin 0) (notional p)) \<longrightarrow> is_balance (remaining_funds st) \<longrightarrow>
              is_balance (remaining_funds st') \<and> fle (remaining_funds st') (remaining_funds st))"
proof (cases "evaluate_row E idx row")
  case (Inl ev)
  with assms have "st' = emit ev st" by (simp add: process_row_def)
  then show ?thesis by (intro exI[of _ "[]"]) simp
next
  case (Inr c)
  with assms have "place_order E idx c st = (ctl, st')" by (simp add: process_row_def)
  then show ?thesis using evaluate_row_InrD(8)[OF Inr] by (rule place_order_funds)
qed

lemma scan_funds:
  assumes "scan E idx rows st = (st', ex)"
  shows "\<exists>new. orders_placed st' = orders_placed st @ new \<and>
           remaining_funds st' = foldl fsub (remaining_funds st) (map notional new) \<and>
           (\<forall>p\<in>set new. confirmed E p \<and> \<not> flt (notional p) (MIN_ORDER_NOTIONAL E) \<and>
              (flt (Fin 0) (amount p) \<longrightarrow> flt (Fin 0) (notional p))) \<and>
           ((\<forall>p\<in>set new. fle (Fin 0) (notional p)) \<longrightarrow> is_balance (remaining_funds st) \<longrightarrow>
              is_balance (remaining_funds st') \<and> fle (remaining_funds st') (remaining_funds st))"
  using assms
proof (induction rows arbitrary: idx st)
  case Nil
  then show ?case by (intro exI[of _ "[]"]) auto
next
  case (Cons row rows)
  obtain ctl st1 where step: "process_row E idx row st = (ctl, st1)"
    by (cases "process_row E idx row st")
  from process_row_funds[OF step] obtain new1 where
    n1: "orders_placed st1 = orders_placed st @ new1"
      "remaining_funds st1 = foldl fsub (remaining_funds st) (map notional new1)"
      "\<forall>p\<in>set new1. confirmed E p \<and> \<not> flt (notional p) (MIN_ORDER_NOTIONAL E) \<and>
              (flt (Fin 0) (amount p) \<longrightarrow> flt (Fin 0) (notional p))"
      "(\<forall>p\<in>set new1. fle (Fin 0) (notional p)) \<longrightarrow> is_balance (remaining_funds st) \<longrightarrow>
         is_balance (remaining_funds st1) \<and> fle (remaining_funds st1) (remaining_funds st)"
    by blast
  show ?case
  proof (cases ctl)
    case Continue
    with Cons.prems step have "scan E (idx + 1) rows st1 = (st', ex)" by simp
    from Cons.IH[OF this] obtain new2 where
      n2: "orders_placed st' = orders_placed st1 @ new2"
        "remaining_funds st' = foldl fsub (remaining_funds st1) (map notional new2)"
        "\<forall>p\<in>set new2. confirmed E p \<and> \<not> flt (notional p) (MIN_ORDER_NOTIONAL E) \<and>
              (flt (Fin 0) (amount p) \<longrightarrow> flt (Fin 0) (notional p))"
        "(\<forall>p\<in>set new2. fle (Fin 0) (notional p)) \<longrightarrow> is_balance (remaining_funds st1) \<longrightarrow>
           is_balance (remaining_funds st') \<and> fle (remaining_funds st') (remaining_funds st1)"
      by blast
    have "orders_placed st' = orders_placed st @ (new1 @ new2)"
      using n1(1) n2(1) by simp
    moreover have "remaining_funds st' = foldl fsub (remaining_funds st) (map notional (new1 @ new2))"
      using n1(2) n2(2) by simp
    moreover have "\<forall>p\<in>set (new1 @ new2). confirmed E p \<and> \<not> flt (notional p) (MIN_ORDER_NOTIONAL E) \<and>
              (flt (Fin 0) (amount p) \<longrightarrow> flt (Fin 0) (notional p))"
      using n1(3) n2(3) by auto
    moreover have "(\<forall>p\<in>set (new1 @ new2). fle (Fin 0) (notional p)) \<longrightarrow>
        is_balance (remaining_funds st) \<longrightarrow>
        is_balance (remaining_funds st') \<and> fle (remaining_funds st') (remaining_funds st)"
      using n1(4) n2(4) by (auto intro: fle_trans)
    ultimately show ?thesis by blast
  next
    case Break
    with Cons.prems step have "st' = st1" by simp
    then show ?thesis using n1 by blast
  next
    case (Raise e)
    with Cons.prems step have "st' = st1" by simp
    then show ?thesis using n1 by blast
  qed
qed

lemma scan_exhausted:
  "fle (remaining_funds st) (Fin 0) \<Longrightarrow>
   scan E idx rows st = (st\<lparr>printed := printed st @ exhausted_trace E idx rows\<rparr>, Finished)"
proof (induction rows arbitrary: idx st)
  case Nil
  then show ?case by simp
next
  case (Cons row rows)
  show ?case
  proof (cases "evaluate_row E idx row")
    case (Inl ev)
    have "fle (remaining_funds (emit ev st)) (Fin 0)" using Cons.prems by simp
    from Cons.IH[OF this] show ?thesis
      using Inl by (simp add: process_row_Inl emit_def)
  next
    case (Inr c)
    then show ?thesis
      using Cons.prems by (simp add: process_row_Inr place_order_exhausted emit_def)
  qed
qed

lemma scan_orders:
  assumes "scan E idx rows st = (st', ex)"
  shows "\<exists>new. orders_placed st' = orders_placed st @ new \<and>
     remaining_funds st' = foldl fsub (remaining_funds st) (map notional new) \<and>
     (\<forall>p\<in>set new. confirmed E p) \<and>
     (\<forall>p\<in>set new. \<not> flt (notional p) (MIN_ORDER_NOTIONAL E)) \<and>
     (is_balance (remaining_funds st) \<and> (\<forall>p\<in>set new. fle (Fin 0) (notional p)) \<longrightarrow>
        fle (remaining_funds st') (remaining_funds st) \<and>
        fle (Fin 0) (remaining_funds st') \<and> is_balance (remaining_funds st')) \<and>
     (positive_amounts_only E \<longrightarrow> (\<forall>p\<in>set new. fle (Fin 0) (notional p))) \<and>
     (fle (Fin 0) (MIN_ORDER_NOTIONAL E) \<longrightarrow>
        (\<forall>p\<in>set new. notional p = NaN \<or> fle (Fin 0) (notional p)))"
proof -
  from scan_funds[OF assms] obtain new where
    n: "orders_placed st' = orders_placed st @ new"
      "remaining_funds st' = foldl fsub (remaining_funds st) (map notional new)"
      "\<forall>p\<in>set new. confirmed E p \<and> \<not> flt (notional p) (MIN_ORDER_NOTIONAL E) \<and>
              (flt (Fin 0) (amount p) \<longrightarrow> flt (Fin 0) (notional p))"
      "(\<forall>p\<in>set new. fle (Fin 0) (notional p)) \<longrightarrow> is_balance (remaining_funds st) \<longrightarrow>
         is_balance (remaining_funds st') \<and> fle (remaining_funds st') (remaining_funds st)"
    by blast
  have pos: "fle (Fin 0) (notional p)" if "positive_amounts_only E" and "p \<in> set new" for p
  proof -
    from n(3) that(2) have "confirmed E p"
      and imp: "flt (Fin 0) (amount p) \<longrightarrow> flt (Fin 0) (notional p)"
      by auto
    with that(1) have "flt (Fin 0) (amount p)"
      unfolding positive_amounts_only_def confirmed_def by blast
    with imp have "flt (Fin 0) (notional p)" by simp
    then show ?thesis by (cases "notional p") simp_all
  qed
  have min: "notional p = NaN \<or> fle (Fin 0) (notional p)"
    if m: "fle (Fin 0) (MIN_ORDER_NOTIONAL E)" and "p \<in> set new" for p
  proof (cases "notional p = NaN")
    case False
    from m have "MIN_ORDER_NOTIONAL E \<noteq> NaN" by auto
    moreover from n(3) that(2) have "\<not> flt (notional p) (MIN_ORDER_NOTIONAL E)" by auto
    ultimately have "fle (MIN_ORDER_NOTIONAL E) (notional p)"
      using False by (intro not_flt_fle)
    with m show ?thesis by (auto intro: fle_trans)
  qed simp
  have bal: "fle (remaining_funds st') (remaining_funds st) \<and>
        fle (Fin 0) (remaining_funds st') \<and> is_balance (remaining_funds st')"
    if "is_balance (remaining_funds st)" and "\<forall>p\<in>set new. fle (Fin 0) (notional p)"
    using n(4) that by (simp add: is_balance_nonneg)
  show ?thesis
    using n(1,2,3) pos min bal by (intro exI[of _ new]) blast
qed

subsection \<open>The examples\<close>

lemma evaluate_row_C [simp]:
  "evaluate_row (demo_env m r) idx row_C = Inl (Sentiment_skip idx (ascii ''ETH''))"
  by (simp add: row_C_def row_defs demo_defs b64_eval)

lemma evaluate_row_D [simp]: "evaluate_row (demo_env m r) idx row_D = Inr cand_D"
  by (simp add: row_D_def cand_D_def row_defs demo_defs b64_eval)

lemma evaluate_row_E [simp]:
  "evaluate_row (demo_env m r) idx row_E = Inl (Icon_not_allowed idx (ascii ''SOL'') [129482])"
  by (simp add: row_E_def row_defs demo_defs b64_eval)

lemma evaluate_row_short [simp]:
  "evaluate_row (demo_env m r) idx (take 15 row_A) = Inl (Not_enough_columns idx)"
  by (simp add: row_A_def sheet_row_def evaluate_row_def COL_defs)

lemma evaluate_row_bad_sentiment:
  "evaluate_row (demo_env m r) idx (row_A[COL_SENTIMENT := ascii ''-1'']) =
     Inl (Sentiment_skip idx (ascii ''ETH''))"
  "evaluate_row (demo_env m r) idx (row_A[COL_SENTIMENT := ascii ''n/a'']) =
     Inl (Sentiment_skip idx (ascii ''ETH''))"
  "evaluate_row (demo_env m r) idx (row_A[COL_SENTIMENT := ascii ''nan'']) =
     Inl (Sentiment_skip idx (ascii ''ETH''))"
  by (simp_all add: row_A_def row_defs demo_defs b64_eval)

lemmas step_defs = process_row_def place_order_def order_notional_def raw_notional_def py_min_def
  Let_def start_state_def emit_def cand_A_def cand_B_def cand_D_def cand_N_def accept_def
  accept_positive_def reject_at_def signed_inf_def

lemma b64_values:
  "b64 1000.1 = Fin (8796972631510221 / 8796093022208)"
  "b64 99.9 = Fin (3514918771674317 / 35184372088832)"
  "b64 0.05 = Fin (3602879701896397 / 72057594037927936)"
  "b64 1.0 = Fin 1" "b64 5.0 = Fin 5"
  by (simp_all add: b64_eval)

lemma scan_demo:
  "scan (demo_env (Fin 5) (reject_at 3)) 2 [row_A, row_A, row_C, row_A] (start_state (Fin 1000)) =
     (\<lparr>remaining_funds = Fin 902.5,
       orders_placed =
         [\<lparr>ord_row = 2, ord_symbol = ascii ''ETH'', ord_market_symbol = ascii ''ETH/USD'',
           notional = Fin 50, amount = Fin 25, order_id = Some (ascii ''OID'')\<rparr>,
          \<lparr>ord_row = 5, ord_symbol = ascii ''ETH'', ord_market_symbol = ascii ''ETH/USD'',
           notional = Fin 47.5, amount = Fin 23.75, order_id = Some (ascii ''OID'')\<rparr>],
       printed =
         [Sizing 2 (ascii ''ETH'') (Fin 50) (ascii ''ETH/USD''),
          Order_placed 2 (ascii ''ETH'') (Some (ascii ''OID'')) (Fin 50) (Fin 950),
          Sizing 3 (ascii ''ETH'') (Fin 47.5) (ascii ''ETH/USD''),
          Order_failed 3 (ascii ''ETH'') (ascii ''rejected''),
          Sentiment_skip 4 (ascii ''ETH''),
          Sizing 5 (ascii ''ETH'') (Fin 47.5) (ascii ''ETH/USD''),
          Order_placed 5 (ascii ''ETH'') (Some (ascii ''OID'')) (Fin 47.5) (Fin 902.5)]\<rparr>,
      Finished)"
  by (simp add: step_defs b64_eval) (simp add: ascii_def)

lemma run_demo:
  "run (demo_env (Fin 5) (reject_at 3)) [[ascii ''Symbol''], row_A, row_A, row_C, row_A]
       (Some (Fin 1000)) =
     Ran (fst (scan (demo_env (Fin 5) (reject_at 3)) 2 [row_A, row_A, row_C, row_A]
            (start_state (Fin 1000)))) Finished"
  unfolding scan_demo by (simp add: run_def scan_demo[unfolded start_state_def] del: scan.simps)


lemma scan_nan:
  "scan (demo_env (Fin 5) accept) 2 [row_N] (start_state (Fin 1000)) =
     (\<lparr>remaining_funds = NaN,
       orders_placed = [\<lparr>ord_row = 2, ord_symbol = ascii ''ETH'',
          ord_market_symbol = ascii ''ETH/USD'', notional = NaN, amount = NaN,
          order_id = Some (ascii ''OID'')\<rparr>],
       printed = [Sizing 2 (ascii ''ETH'') NaN (ascii ''ETH/USD''),
                  Order_placed 2 (ascii ''ETH'') (Some (ascii ''OID'')) NaN NaN]\<rparr>,
      Finished)"
  by (simp add: step_defs b64_eval) (simp add: ascii_def)

lemma scan_negative:
  "scan (demo_env (Fin (- 3000)) accept) 2 [row_D] (start_state (Fin 1000)) =
     (\<lparr>remaining_funds = Fin 3500,
       orders_placed = [\<lparr>ord_row = 2, ord_symbol = ascii ''ETH'',
          ord_market_symbol = ascii ''ETH/USD'', notional = Fin (- 2500), amount = Fin (- 1250),
          order_id = Some (ascii ''OID'')\<rparr>],
       printed = [Sizing 2 (ascii ''ETH'') (Fin (- 2500)) (ascii ''ETH/USD''),
                  Order_placed 2 (ascii ''ETH'') (Some (ascii ''OID'')) (Fin (- 2500))
                    (Fin 3500)]\<rparr>,
      Finished)"
  by (simp add: step_defs b64_eval) (simp add: ascii_def)

lemma scan_rounding:
  "scan (demo_env (Fin 5) accept_positive) 2 [row_A] (start_state (b64 1000.1)) =
     (\<lparr>remaining_funds = Fin (4178561999967355 / 4398046511104),
       orders_placed = [\<lparr>ord_row = 2, ord_symbol = ascii ''ETH'',
          ord_market_symbol = ascii ''ETH/USD'',
          notional = Fin (7037578105208177 / 140737488355328),
          amount = Fin (7037578105208177 / 281474976710656),
          order_id = Some (ascii ''OID'')\<rparr>],
       printed = [Sizing 2 (ascii ''ETH'') (Fin (7037578105208177 / 140737488355328))
                    (ascii ''ETH/USD''),
                  Order_placed 2 (ascii ''ETH'') (Some (ascii ''OID''))
                    (Fin (7037578105208177 / 140737488355328))
                    (Fin (4178561999967355 / 4398046511104))]\<rparr>,
      Finished)"
  by (simp add: step_defs b64_eval) (simp add: ascii_def)

lemma positive_amounts_only_demo [simp]:
  "positive_amounts_only (demo_env m (reject_at k))"
  "positive_amounts_only (demo_env m accept_positive)"
  by (simp_all add: positive_amounts_only_def reject_at_def accept_positive_def)

lemma is_balance_1000 [simp]: "is_balance (Fin 1000)"
  by (simp add: is_balance_def b64_eval)

section \<open>Properties\<close>

subsection \<open>Tier classification\<close>

text \<open>
  Claim C1, as the code has it. The four brackets of \<open>determine_tier_fraction\<close> are the
  closed intervals from 0 to 25, 26 to 50, 51 to 75 and 76 to 99.9 of the magnitude of
  \<open>pct_down\<close>, with the fractions 0.05, 0.10, 0.15 and 0.20 (the \<open>float\<close> values of these
  literals). They are not contiguous: a magnitude strictly between 25 and 26, between 50
  and 51 or between 75 and 76 has no tier, and neither has one above the \<open>float\<close> 99.9,
  an infinity or NaN. The bound 99.9 is the \<open>float\<close> of that literal, which lies just
  above the decimal number: every magnitude up to the decimal 99.9 is within it.
\<close>

theorem tier_brackets:
  "(\<bar>p\<bar> \<le> 25 \<longrightarrow> determine_tier_fraction (Fin p) = Some (b64 0.05)) \<and>
   (26 \<le> \<bar>p\<bar> \<and> \<bar>p\<bar> \<le> 50 \<longrightarrow> determine_tier_fraction (Fin p) = Some (b64 0.10)) \<and>
   (51 \<le> \<bar>p\<bar> \<and> \<bar>p\<bar> \<le> 75 \<longrightarrow> determine_tier_fraction (Fin p) = Some (b64 0.15)) \<and>
   (76 \<le> \<bar>p\<bar> \<and> fle (Fin \<bar>p\<bar>) (b64 99.9) \<longrightarrow>
      determine_tier_fraction (Fin p) = Some (b64 0.20)) \<and>
   (\<bar>p\<bar> \<le> 99.9 \<longrightarrow> fle (Fin \<bar>p\<bar>) (b64 99.9)) \<and>
   ((25 < \<bar>p\<bar> \<and> \<bar>p\<bar> < 26) \<or> (50 < \<bar>p\<bar> \<and> \<bar>p\<bar> < 51) \<or> (75 < \<bar>p\<bar> \<and> \<bar>p\<bar> < 76) \<or>
    flt (b64 99.9) (Fin \<bar>p\<bar>) \<longrightarrow> determine_tier_fraction (Fin p) = None) \<and>
   determine_tier_fraction PInf = None \<and> determine_tier_fraction NInf = None \<and>
   determine_tier_fraction NaN = None"
  by (auto simp add: determine_tier_fraction_def Let_def b64_values(2))

text \<open>
  One value in each bracket, one in a gap and one above the last bracket.
\<close>

theorem tier_brackets_witness:
  "determine_tier_fraction (Fin 25.0) = Some (b64 0.05) \<and>
   determine_tier_fraction (Fin (- 37.5)) = Some (b64 0.10) \<and>
   determine_tier_fraction (Fin 75) = Some (b64 0.15) \<and>
   determine_tier_fraction (Fin (- 99.9)) = Some (b64 0.20) \<and>
   determine_tier_fraction (Fin 25.5) = None \<and> determine_tier_fraction (Fin 100) = None"
  using tier_brackets[of "25.0"] tier_brackets[of "- 37.5"] tier_brackets[of 75]
    tier_brackets[of "- 99.9"] tier_brackets[of "25.5"] tier_brackets[of 100]
  by (simp add: b64_values(2))

text \<open>
  The \<open>float\<close> 25.0000001 lies in the bracket from 25 (excluded) to 50 of claim C1, which
  gives it the fraction 0.10; the code gives it no tier.
\<close>

theorem tier_gap_counterexample:
  "determine_tier_fraction (b64 25.0000001) = None \<and>
   determine_tier_fraction (b64 25.0000001) \<noteq> Some (b64 0.10) \<and>
   flt (Fin 25) (b64 25.0000001) \<and> fle (b64 25.0000001) (Fin 50)"
  by (simp add: determine_tier_fraction_def Let_def b64_eval)

subsection \<open>Sizing\<close>




text \<open>
  Claim C8. Funds of 1000, a row of tier 0.05 whose icon multiplier, ratio and sentiment
  are 1.0, a minimum of 5 and an exchange that accepts: the product and the order
  notional are 50, with no rounding error, and the funds after the row are 950.
\<close>

theorem scenario_A:
  assumes "evaluate_row E idx row = Inr c"
    and "c_tier_fraction c = b64 0.05" and "c_icon_mult c = b64 1.0"
    and "c_ma_ratio c = b64 1.0" and "c_sent_mult c = b64 1.0"
    and "remaining_funds st = Fin 1000" and "MIN_ORDER_NOTIONAL E = Fin 5"
    and "create_market_buy_order E idx (c_symbol c @ [47] @ BASE_CURRENCY E)
           (fdiv (Fin 50) (c_price c)) = Order_ok oid"
  shows "raw_notional (remaining_funds st) c = Fin 50 \<and>
         order_notional (remaining_funds st) c = Fin 50 \<and>
         fst (process_row E idx row st) = Continue \<and>
         remaining_funds (snd (process_row E idx row st)) = Fin 950 \<and>
         orders_placed (snd (process_row E idx row st)) = orders_placed st @
           [\<lparr>ord_row = idx, ord_symbol = c_symbol c,
             ord_market_symbol = c_symbol c @ [47] @ BASE_CURRENCY E,
             notional = Fin 50, amount = fdiv (Fin 50) (c_price c), order_id = oid\<rparr>]"
proof -
  have r: "raw_notional (remaining_funds st) c = Fin 50"
    using assms(2-6) by (simp add: raw_notional_def b64_eval)
  then have n: "order_notional (remaining_funds st) c = Fin 50"
    using assms(6) by (simp add: order_notional_def py_min_def)
  have "\<not> fle (remaining_funds st) (Fin 0)"
    and "\<not> flt (order_notional (remaining_funds st) c) (MIN_ORDER_NOTIONAL E)"
    using assms(6,7) n by simp_all
  from place_order_submit[OF this] show ?thesis
    using assms r n by (simp add: process_row_Inr Let_def emit_def b64_eval)
qed

text \<open>
  The row \<open>row_A\<close> is such a row.
\<close>

theorem scenario_A_witness:
  "evaluate_row (demo_env (Fin 5) accept) 2 row_A = Inr cand_A \<and>
   c_tier_fraction cand_A = b64 0.05 \<and> c_icon_mult cand_A = b64 1.0 \<and>
   c_ma_ratio cand_A = b64 1.0 \<and> c_sent_mult cand_A = b64 1.0 \<and>
   remaining_funds (start_state (Fin 1000)) = Fin 1000 \<and>
   MIN_ORDER_NOTIONAL (demo_env (Fin 5) accept) = Fin 5 \<and>
   order_notional (remaining_funds (start_state (Fin 1000))) cand_A = Fin 50 \<and>
   remaining_funds (snd (process_row (demo_env (Fin 5) accept) 2 row_A
     (start_state (Fin 1000)))) = Fin 950 \<and>
   map notional (orders_placed (snd (process_row (demo_env (Fin 5) accept) 2 row_A
     (start_state (Fin 1000))))) = [Fin 50]"
proof -
  have e: "evaluate_row (demo_env (Fin 5) accept) 2 row_A = Inr cand_A"
    by simp
  have c: "c_tier_fraction cand_A = b64 0.05" "c_icon_mult cand_A = b64 1.0"
    "c_ma_ratio cand_A = b64 1.0" "c_sent_mult cand_A = b64 1.0"
    by (simp_all add: cand_A_def b64_eval)
  have f: "remaining_funds (start_state (Fin 1000)) = Fin 1000"
    by (simp add: start_state_def)
  have m: "MIN_ORDER_NOTIONAL (demo_env (Fin 5) accept) = Fin 5"
    by simp
  have x: "create_market_buy_order (demo_env (Fin 5) accept) 2
             (c_symbol cand_A @ [47] @ BASE_CURRENCY (demo_env (Fin 5) accept))
             (fdiv (Fin 50) (c_price cand_A))
           = Order_ok (Some (ascii ''OID''))"
    by (simp add: accept_def)
  show ?thesis
    using scenario_A[OF e c f m x] e c f m by (simp add: start_state_def)
qed

subsection \<open>The funds\<close>

text \<open>
  Claim C3, as the code has it. Over the loop, from any state, the orders added to
  \<open>orders_placed\<close> are orders the exchange has confirmed, and the funds at the end are the
  funds at the start from which the notional of each of these orders has been subtracted
  in turn, each subtraction rounded; rows that are skipped or refused contribute nothing.
  When the funds at the start are a number of the format that is not negative and the
  notional of every order added is at least zero, the funds at the end are at most those
  at the start and are not negative. That condition on the notionals holds when the
  exchange confirms only requests of an amount greater than zero; with a minimum notional
  that is not negative, a notional is at least zero or NaN. The loop runs on from the
  state after each row, so the same holds between any two rows, and of every run.
\<close>

theorem funds_pool_invariant:
  "(scan E idx rows st = (st', ex) \<longrightarrow>
      (\<exists>new. orders_placed st' = orders_placed st @ new \<and>
         remaining_funds st' = foldl fsub (remaining_funds st) (map notional new) \<and>
         (\<forall>p\<in>set new. confirmed E p) \<and>
         (is_balance (remaining_funds st) \<and> (\<forall>p\<in>set new. fle (Fin 0) (notional p)) \<longrightarrow>
            fle (remaining_funds st') (remaining_funds st) \<and>
            fle (Fin 0) (remaining_funds st') \<and> is_balance (remaining_funds st')) \<and>
         (positive_amounts_only E \<longrightarrow> (\<forall>p\<in>set new. fle (Fin 0) (notional p))) \<and>
         (fle (Fin 0) (MIN_ORDER_NOTIONAL E) \<longrightarrow>
            (\<forall>p\<in>set new. notional p = NaN \<or> fle (Fin 0) (notional p))))) \<and>
   (run E all_values (Some funds) = Ran st'' ex' \<longrightarrow>
      remaining_funds st'' = foldl fsub funds (map notional (orders_placed st'')) \<and>
      (\<forall>p\<in>set (orders_placed st''). confirmed E p) \<and>
      (is_balance funds \<and>
       (positive_amounts_only E \<or> (\<forall>p\<in>set (orders_placed st''). fle (Fin 0) (notional p))) \<longrightarrow>
         fle (remaining_funds st'') funds \<and> fle (Fin 0) (remaining_funds st'')))"
proof -
  have "\<exists>new. orders_placed st' = orders_placed st @ new \<and>
         remaining_funds st' = foldl fsub (remaining_funds st) (map notional new) \<and>
         (\<forall>p\<in>set new. confirmed E p) \<and>
         (is_balance (remaining_funds st) \<and> (\<forall>p\<in>set new. fle (Fin 0) (notional p)) \<longrightarrow>
            fle (remaining_funds st') (remaining_funds st) \<and>
            fle (Fin 0) (remaining_funds st') \<and> is_balance (remaining_funds st')) \<and>
         (positive_amounts_only E \<longrightarrow> (\<forall>p\<in>set new. fle (Fin 0) (notional p))) \<and>
         (fle (Fin 0) (MIN_ORDER_NOTIONAL E) \<longrightarrow>
            (\<forall>p\<in>set new. notional p = NaN \<or> fle (Fin 0) (notional p)))"
    if "scan E idx rows st = (st', ex)"
    using scan_orders[OF that] by blast
  moreover have "remaining_funds st'' = foldl fsub funds (map notional (orders_placed st'')) \<and>
      (\<forall>p\<in>set (orders_placed st''). confirmed E p) \<and>
      (is_balance funds \<and>
       (positive_amounts_only E \<or> (\<forall>p\<in>set (orders_placed st''). fle (Fin 0) (notional p))) \<longrightarrow>
         fle (remaining_funds st'') funds \<and> fle (Fin 0) (remaining_funds st''))"
    if r: "run E all_values (Some funds) = Ran st'' ex'"
  proof -
    from r have "scan E 2 (tl all_values)
        \<lparr>remaining_funds = funds, orders_placed = [], printed = []\<rparr> = (st'', ex')"
      by (auto simp add: run_def Let_def split: if_splits prod.splits)
    from scan_orders[OF this] show ?thesis by auto
  qed
  ultimately show ?thesis by blast
qed

text \<open>
  Four rows of which the second is refused by the exchange and the third has no
  sentiment: two orders, of 50 and 47.5, and funds of 902.5 left of 1000.
\<close>

theorem funds_pool_invariant_witness:
  "is_balance (remaining_funds (start_state (Fin 1000))) \<and>
   positive_amounts_only (demo_env (Fin 5) (reject_at 3)) \<and>
   fle (Fin 0) (MIN_ORDER_NOTIONAL (demo_env (Fin 5) (reject_at 3))) \<and>
   remaining_funds (fst (scan (demo_env (Fin 5) (reject_at 3)) 2 [row_A, row_A, row_C, row_A]
      (start_state (Fin 1000)))) = Fin 902.5 \<and>
   map notional (orders_placed (fst (scan (demo_env (Fin 5) (reject_at 3)) 2
      [row_A, row_A, row_C, row_A] (start_state (Fin 1000))))) = [Fin 50, Fin 47.5] \<and>
   list_all (confirmed (demo_env (Fin 5) (reject_at 3)))
     (orders_placed (fst (scan (demo_env (Fin 5) (reject_at 3)) 2
        [row_A, row_A, row_C, row_A] (start_state (Fin 1000))))) \<and>
   foldl fsub (Fin 1000) [Fin 50, Fin 47.5] = Fin 902.5 \<and>
   fle (Fin 902.5) (Fin 1000) \<and> fle (Fin 0) (Fin 902.5) \<and>
   run (demo_env (Fin 5) (reject_at 3)) [[ascii ''Symbol''], row_A, row_A, row_C, row_A]
       (Some (Fin 1000)) =
     Ran (fst (scan (demo_env (Fin 5) (reject_at 3)) 2 [row_A, row_A, row_C, row_A]
            (start_state (Fin 1000)))) Finished"
  using funds_pool_invariant[where E = "demo_env (Fin 5) (reject_at 3)" and idx = 2
      and rows = "[row_A, row_A, row_C, row_A]" and st = "start_state (Fin 1000)"
      and all_values = "[[ascii ''Symbol''], row_A, row_A, row_C, row_A]"
      and funds = "Fin 1000"] run_demo
  unfolding scan_demo
  by (simp add: start_state_def confirmed_def reject_at_def accept_positive_def b64_eval)

text \<open>
  Three runs against claim C3. With the default minimum of 5 the row \<open>row_N\<close> is sized
  NaN and, the exchange confirming the order, the funds become NaN, which is neither at
  most 1000 nor at least zero. With a minimum of -3000 the row \<open>row_D\<close>, whose long moving
  average is negative, is sized -2500 and, the exchange confirming the order, the funds
  rise from 1000 to 3500. With funds of 1000.1 and an exchange that confirms positive
  amounts only, \<open>row_A\<close> is sized 50.005 and the funds fall by 50.004999999999995, the
  next number of the format below: the decrease is not the notional.
\<close>

theorem funds_pool_counterexample:
  "remaining_funds (fst (scan (demo_env (Fin 5) accept) 2 [row_N] (start_state (Fin 1000))))
     = NaN \<and>
   \<not> fle (remaining_funds (fst (scan (demo_env (Fin 5) accept) 2 [row_N]
             (start_state (Fin 1000)))))
         (remaining_funds (start_state (Fin 1000))) \<and>
   \<not> fle (Fin 0) (remaining_funds (fst (scan (demo_env (Fin 5) accept) 2 [row_N]
             (start_state (Fin 1000))))) \<and>
   remaining_funds (fst (scan (demo_env (Fin (- 3000)) accept) 2 [row_D]
      (start_state (Fin 1000)))) = Fin 3500 \<and>
   \<not> fle (remaining_funds (fst (scan (demo_env (Fin (- 3000)) accept) 2 [row_D]
             (start_state (Fin 1000)))))
         (remaining_funds (start_state (Fin 1000))) \<and>
   is_balance (b64 1000.1) \<and>
   positive_amounts_only (demo_env (Fin 5) accept_positive) \<and>
   map notional (orders_placed (fst (scan (demo_env (Fin 5) accept_positive) 2 [row_A]
      (start_state (b64 1000.1))))) = [Fin (7037578105208177 / 140737488355328)] \<and>
   fsub (b64 1000.1) (remaining_funds (fst (scan (demo_env (Fin 5) accept_positive) 2 [row_A]
      (start_state (b64 1000.1))))) = Fin (7037578105208176 / 140737488355328) \<and>
   b64 50.005 = Fin (7037578105208177 / 140737488355328) \<and>
   b64 50.004999999999995 = Fin (7037578105208176 / 140737488355328)"
  unfolding scan_nan scan_negative scan_rounding
  by (simp add: start_state_def is_balance_def b64_eval)

text \<open>
  Claim C4, as the code has it. From funds for which \<open>remaining_funds <= 0\<close> holds the
  loop places no order and leaves funds and orders as they are, but it does not stop at
  once: each later row goes through the checks of \<open>evaluate_row\<close>, a row that fails one is
  skipped with its own line, and the loop ends at the first row that passes them all, or
  with the rows. When the balance is not positive at the start of the run, the loop is not
  entered: no row is evaluated and no order is placed.
\<close>

theorem exhausted_funds_stop:
  "(fle (remaining_funds st) (Fin 0) \<longrightarrow>
      scan E idx rows st =
        (st\<lparr>printed := printed st @ exhausted_trace E idx rows\<rparr>, Finished)) \<and>
   (fle f (Fin 0) \<longrightarrow>
      run E all_values (Some f) =
        (if length all_values < 2 then No_data_rows else No_available_funds))"
  by (simp add: scan_exhausted run_def)

text \<open>
  From funds of 0 the loop skips a row that is too short and a row with a foreign icon,
  and ends at the third row.
\<close>

theorem exhausted_funds_stop_witness:
  "fle (remaining_funds (start_state (Fin 0))) (Fin 0) \<and>
   scan (demo_env (Fin 5) accept) 2 [take 15 row_A, row_E, row_A, row_B] (start_state (Fin 0)) =
     (\<lparr>remaining_funds = Fin 0, orders_placed = [],
       printed = [Not_enough_columns 2, Icon_not_allowed 3 (ascii ''SOL'') [129482],
                  No_remaining_funds]\<rparr>, Finished) \<and>
   run (demo_env (Fin 5) accept) [[ascii ''Symbol''], row_A, row_B] (Some (Fin 0))
     = No_available_funds"
  using exhausted_funds_stop[of "start_state (Fin 0)" "demo_env (Fin 5) accept" 2
      "[take 15 row_A, row_E, row_A, row_B]" "Fin 0" "[[ascii ''Symbol''], row_A, row_B]"]
  by (simp add: start_state_def)

text \<open>
  A run with a balance of 100: the order of row 2 takes all of it, and the rows 3 and 4
  are still checked and skipped, with funds of 0, before row 5 ends the loop.
\<close>

theorem scan_goes_on_counterexample:
  "remaining_funds (snd (process_row (demo_env (Fin 5) accept) 2 row_B (start_state (Fin 100))))
     = Fin 0 \<and>
   run (demo_env (Fin 5) accept) [[ascii ''Symbol''], row_B, take 15 row_A, row_E, row_A, row_A]
       (Some (Fin 100)) =
     Ran \<lparr>remaining_funds = Fin 0,
          orders_placed = [\<lparr>ord_row = 2, ord_symbol = ascii ''BTC'',
            ord_market_symbol = ascii ''BTC/USD'', notional = Fin 100, amount = Fin 50,
            order_id = Some (ascii ''OID'')\<rparr>],
          printed = [Sizing 2 (ascii ''BTC'') (Fin 100) (ascii ''BTC/USD''),
                     Order_placed 2 (ascii ''BTC'') (Some (ascii ''OID'')) (Fin 100) (Fin 0),
                     Not_enough_columns 3,
                     Icon_not_allowed 4 (ascii ''SOL'') [129482],
                     No_remaining_funds]\<rparr> Finished"
  by (simp add: run_def step_defs b64_eval) (simp add: ascii_def)




subsection \<open>The exchange\<close>

text \<open>
  Claim C6. For a row that is submitted to the exchange: when the exchange raises a
  \<open>ccxt.BaseError\<close>, the funds and the orders are unchanged, the line of the failure
  with the error is printed, and the loop goes on with the next row; when it returns an
  order, the notional is subtracted from the funds, the order is appended to
  \<open>orders_placed\<close> with the identifier returned, and the loop goes on with the next row.
\<close>

theorem executor_outcome:
  assumes "evaluate_row E idx row = Inr c" and "\<not> fle (remaining_funds st) (Fin 0)"
    and "\<not> flt (order_notional (remaining_funds st) c) (MIN_ORDER_NOTIONAL E)"
  shows
    "(let n = order_notional (remaining_funds st) c;
          m = c_symbol c @ [47] @ BASE_CURRENCY E;
          reply = create_market_buy_order E idx m (fdiv n (c_price c));
          st' = snd (process_row E idx row st)
      in (\<forall>e. reply = Base_error e \<longrightarrow>
            fst (process_row E idx row st) = Continue \<and>
            remaining_funds st' = remaining_funds st \<and>
            orders_placed st' = orders_placed st \<and>
            printed st' = printed st @ [Sizing idx (c_symbol c) n m,
                                       Order_failed idx (c_symbol c) e] \<and>
            scan E idx (row # rows) st = scan E (idx + 1) rows st') \<and>
         (\<forall>oid. reply = Order_ok oid \<longrightarrow>
            fst (process_row E idx row st) = Continue \<and>
            remaining_funds st' = fsub (remaining_funds st) n \<and>
            orders_placed st' = orders_placed st @
              [\<lparr>ord_row = idx, ord_symbol = c_symbol c, ord_market_symbol = m,
                notional = n, amount = fdiv n (c_price c), order_id = oid\<rparr>] \<and>
            printed st' = printed st @ [Sizing idx (c_symbol c) n m,
              Order_placed idx (c_symbol c) oid n (fsub (remaining_funds st) n)] \<and>
            scan E idx (row # rows) st = scan E (idx + 1) rows st'))"
  unfolding process_row_Inr[OF assms(1)] scan.simps place_order_submit[OF assms(2,3)]
  by (auto simp add: Let_def emit_def)

text \<open>
  The row \<open>row_A\<close> with funds of 1000, refused and accepted.
\<close>

theorem executor_outcome_witness:
  "evaluate_row (demo_env (Fin 5) (reject_at 2)) 2 row_A = Inr cand_A \<and>
   \<not> fle (remaining_funds (start_state (Fin 1000))) (Fin 0) \<and>
   \<not> flt (order_notional (remaining_funds (start_state (Fin 1000))) cand_A)
         (MIN_ORDER_NOTIONAL (demo_env (Fin 5) (reject_at 2))) \<and>
   create_market_buy_order (demo_env (Fin 5) (reject_at 2)) 2 (ascii ''ETH/USD'') (Fin 25)
     = Base_error (ascii ''rejected'') \<and>
   process_row (demo_env (Fin 5) (reject_at 2)) 2 row_A (start_state (Fin 1000)) =
     (Continue, \<lparr>remaining_funds = Fin 1000, orders_placed = [],
        printed = [Sizing 2 (ascii ''ETH'') (Fin 50) (ascii ''ETH/USD''),
                   Order_failed 2 (ascii ''ETH'') (ascii ''rejected'')]\<rparr>) \<and>
   create_market_buy_order (demo_env (Fin 5) accept) 2 (ascii ''ETH/USD'') (Fin 25)
     = Order_ok (Some (ascii ''OID'')) \<and>
   process_row (demo_env (Fin 5) accept) 2 row_A (start_state (Fin 1000)) =
     (Continue, \<lparr>remaining_funds = Fin 950,
        orders_placed = [\<lparr>ord_row = 2, ord_symbol = ascii ''ETH'',
          ord_market_symbol = ascii ''ETH/USD'', notional = Fin 50, amount = Fin 25,
          order_id = Some (ascii ''OID'')\<rparr>],
        printed = [Sizing 2 (ascii ''ETH'') (Fin 50) (ascii ''ETH/USD''),
                   Order_placed 2 (ascii ''ETH'') (Some (ascii ''OID'')) (Fin 50) (Fin 950)]\<rparr>)"
proof -
  have n: "order_notional (remaining_funds (start_state (Fin 1000))) cand_A = Fin 50"
    by (simp add: start_state_def order_notional_def raw_notional_def py_min_def cand_A_def
        b64_eval)
  have e: "evaluate_row (demo_env (Fin 5) (reject_at 2)) 2 row_A = Inr cand_A"
    by simp
  have f: "\<not> fle (remaining_funds (start_state (Fin 1000))) (Fin 0)"
    by (simp add: start_state_def)
  have m: "\<not> flt (order_notional (remaining_funds (start_state (Fin 1000))) cand_A)
         (MIN_ORDER_NOTIONAL (demo_env (Fin 5) (reject_at 2)))"
    unfolding n by simp
  show ?thesis
    using executor_outcome[OF e f m] e f m
    by (simp add: step_defs b64_eval) (simp add: ascii_def)
qed

subsection \<open>Row validation\<close>

text \<open>
  Claim C7. A row whose sentiment cell is empty after stripping, is not accepted by
  \<open>float\<close>, or holds a value of which \<open>val > 0\<close> is false (a number that is not positive,
  or NaN) has no sentiment multiplier; the row is skipped, the funds and the orders
  unchanged. When the rest of the row is valid, that is when the row would pass with
  another sentiment cell, the line printed is that of the sentiment check.
\<close>

theorem sentiment_gate:
  assumes "strip (sentiment_cell row) = [] \<or>
           py_float E (strip (sentiment_cell row)) = None \<or>
           (\<exists>v. py_float E (strip (sentiment_cell row)) = Some v \<and> \<not> flt (Fin 0) v)"
  shows "sentiment_multiplier E (Some (sentiment_cell row)) = None \<and>
         (\<exists>ev. evaluate_row E idx row = Inl ev \<and>
               process_row E idx row st = (Continue, emit ev st)) \<and>
         remaining_funds (snd (process_row E idx row st)) = remaining_funds st \<and>
         orders_placed (snd (process_row E idx row st)) = orders_placed st \<and>
         (\<forall>s c. evaluate_row E idx (row[COL_SENTIMENT := s]) = Inr c \<longrightarrow>
                evaluate_row E idx row = Inl (Sentiment_skip idx (c_symbol c)))"
proof -
  have none: "sentiment_multiplier E (Some (sentiment_cell row)) = None"
    using assms by (auto simp add: sentiment_multiplier_Some)
  obtain ev where ev: "evaluate_row E idx row = Inl ev"
    using evaluate_row_InrD(10)[of E idx row] none
    by (cases "evaluate_row E idx row") auto
  show ?thesis
    using none ev evaluate_row_other_sentiment[OF _ none]
    by (auto simp add: process_row_Inl)
qed

text \<open>
  The row \<open>row_C\<close> is \<open>row_A\<close> with an empty sentiment cell; the three other rows are
  \<open>row_A\<close> with a sentiment that \<open>float\<close> refuses, with a negative one and with \<open>nan\<close>.
\<close>

theorem sentiment_gate_witness:
  "strip (sentiment_cell row_C) = [] \<and>
   py_float (demo_env (Fin 5) accept)
     (strip (sentiment_cell (row_A[COL_SENTIMENT := ascii ''n/a'']))) = None \<and>
   py_float (demo_env (Fin 5) accept)
     (strip (sentiment_cell (row_A[COL_SENTIMENT := ascii ''-1'']))) = Some (Fin (- 1)) \<and>
   \<not> flt (Fin 0) (Fin (- 1)) \<and>
   py_float (demo_env (Fin 5) accept)
     (strip (sentiment_cell (row_A[COL_SENTIMENT := ascii ''nan'']))) = Some NaN \<and>
   \<not> flt (Fin 0) NaN \<and>
   sentiment_multiplier (demo_env (Fin 5) accept) (Some (sentiment_cell row_C)) = None \<and>
   evaluate_row (demo_env (Fin 5) accept) 2 (row_C[COL_SENTIMENT := ascii ''1.0'']) = Inr cand_A \<and>
   process_row (demo_env (Fin 5) accept) 2 row_C (start_state (Fin 1000)) =
     (Continue, \<lparr>remaining_funds = Fin 1000, orders_placed = [],
                 printed = [Sentiment_skip 2 (ascii ''ETH'')]\<rparr>) \<and>
   process_row (demo_env (Fin 5) accept) 2 (row_A[COL_SENTIMENT := ascii ''n/a''])
       (start_state (Fin 1000)) =
     (Continue, \<lparr>remaining_funds = Fin 1000, orders_placed = [],
                 printed = [Sentiment_skip 2 (ascii ''ETH'')]\<rparr>) \<and>
   process_row (demo_env (Fin 5) accept) 2 (row_A[COL_SENTIMENT := ascii ''-1''])
       (start_state (Fin 1000)) =
     (Continue, \<lparr>remaining_funds = Fin 1000, orders_placed = [],
                 printed = [Sentiment_skip 2 (ascii ''ETH'')]\<rparr>) \<and>
   process_row (demo_env (Fin 5) accept) 2 (row_A[COL_SENTIMENT := ascii ''nan''])
       (start_state (Fin 1000)) =
     (Continue, \<lparr>remaining_funds = Fin 1000, orders_placed = [],
                 printed = [Sentiment_skip 2 (ascii ''ETH'')]\<rparr>)"
proof -
  have s: "strip (sentiment_cell row_C) = []"
    by (simp add: sentiment_cell_def row_C_def sheet_row_def COL_defs ascii_def)
  have u: "py_float (demo_env (Fin 5) accept)
             (strip (sentiment_cell (row_A[COL_SENTIMENT := ascii ''n/a'']))) = None"
    by (simp add: sentiment_cell_def row_A_def COL_defs demo_defs)
  have n: "py_float (demo_env (Fin 5) accept)
             (strip (sentiment_cell (row_A[COL_SENTIMENT := ascii ''-1'']))) = Some (Fin (- 1))"
    by (simp add: sentiment_cell_def row_A_def COL_defs demo_defs b64_eval)
  have q: "py_float (demo_env (Fin 5) accept)
             (strip (sentiment_cell (row_A[COL_SENTIMENT := ascii ''nan'']))) = Some NaN"
    by (simp add: sentiment_cell_def row_A_def COL_defs demo_defs)
  have "row_C[COL_SENTIMENT := ascii ''1.0''] = row_A"
    by (simp add: row_C_def row_A_def sheet_row_def COL_defs)
  then show ?thesis
    using s u n q sentiment_gate[of row_C "demo_env (Fin 5) accept" 2 "start_state (Fin 1000)"]
      sentiment_gate[of "row_A[COL_SENTIMENT := ascii ''n/a'']" "demo_env (Fin 5) accept" 2
        "start_state (Fin 1000)"]
      sentiment_gate[of "row_A[COL_SENTIMENT := ascii ''-1'']" "demo_env (Fin 5) accept" 2
        "start_state (Fin 1000)"]
      sentiment_gate[of "row_A[COL_SENTIMENT := ascii ''nan'']" "demo_env (Fin 5) accept" 2
        "start_state (Fin 1000)"]
    by (simp add: process_row_def emit_def start_state_def evaluate_row_bad_sentiment)
qed




text \<open>
  Claim C10. A row of at most 15 cells is skipped as having too few columns; so a row
  that gets past that check has a sentiment cell, and the empty string that
  \<open>sentiment_cell\<close> falls back on is never used.
\<close>

theorem too_few_columns:
  "(length row \<le> 15 \<longrightarrow> evaluate_row E idx row = Inl (Not_enough_columns idx)) \<and>
   (evaluate_row E idx row \<noteq> Inl (Not_enough_columns idx) \<longrightarrow>
      COL_SENTIMENT < length row \<and> sentiment_cell row = row ! COL_SENTIMENT)"
  by (auto simp add: evaluate_row_def sentiment_cell_def COL_defs)

text \<open>
  The row \<open>row_A\<close> cut to 15 cells, and \<open>row_A\<close> itself.
\<close>

theorem too_few_columns_witness:
  "length (take 15 row_A) \<le> 15 \<and>
   evaluate_row (demo_env (Fin 5) accept) 2 (take 15 row_A) = Inl (Not_enough_columns 2) \<and>
   evaluate_row (demo_env (Fin 5) accept) 2 row_A \<noteq> Inl (Not_enough_columns 2) \<and>
   COL_SENTIMENT < length row_A \<and> sentiment_cell row_A = ascii ''1.0''"
proof -
  have "length (take 15 row_A) \<le> 15"
    by simp
  moreover have "row_A ! COL_SENTIMENT = ascii ''1.0''"
    by (simp add: row_A_def sheet_row_def COL_defs)
  ultimately show ?thesis
    using too_few_columns[of "take 15 row_A" "demo_env (Fin 5) accept" 2]
      too_few_columns[of row_A "demo_env (Fin 5) accept" 2]
    by simp
qed

end
